theory Spec2Isabelle
  imports Main "HOL-Library.Sublist"
begin

unbundle bit_operations_syntax

section \<open>The roster-to-flashcards script\<close>

text \<open>
  A shallow embedding of \<^verbatim>\<open>roster-anki-flash-cards.py\<close>: the three stages
  \<^verbatim>\<open>read_roster\<close>, \<^verbatim>\<open>rename_photos\<close> and \<^verbatim>\<open>make_flashcards\<close> of class
  \<^verbatim>\<open>Roster\<close>, with the operations of Python's \<^verbatim>\<open>str\<close> and of the parse tree
  that they call. Python strings are modelled as \<^typ>\<open>string\<close>: a character is a code
  point below 256, and the case mapping, the whitespace class and the printable characters
  are Python's on that range. Every exception the script can raise is a value of
  \<open>py_error\<close>, and a stage returns \<open>py_error + result\<close>.
\<close>

subsection \<open>Exceptions\<close>

datatype py_error =
    IndexError
  | KeyError string
  | AttributeError string
  | TypeError
  | AssertionError
  | FileNotFoundError string
  | SameFileError string
  | OutsideModel

text \<open>
  \<open>OutsideModel\<close> is no exception of Python. It is returned where the script goes on
  with a string that has a character above 255, which the model cannot hold.
\<close>

definition and_then :: "'e + 'a \<Rightarrow> ('a \<Rightarrow> 'e + 'b) \<Rightarrow> 'e + 'b" where
  "and_then m f = (case m of Inl e \<Rightarrow> Inl e | Inr v \<Rightarrow> f v)"

text \<open>\<^verbatim>\<open>xs[i]\<close> for a non-negative literal index.\<close>

definition index :: "'a list \<Rightarrow> nat \<Rightarrow> py_error + 'a" where
  "index xs i = (if i < length xs then Inr (xs ! i) else Inl IndexError)"

subsection \<open>Operations of \<^verbatim>\<open>str\<close>\<close>

text \<open>\<^verbatim>\<open>s.split(sep)\<close> for a separator of one character: never empty.\<close>

fun py_split :: "char \<Rightarrow> string \<Rightarrow> string list" where
  "py_split c [] = [[]]"
| "py_split c (x # xs) =
     (if x = c then [] # py_split c xs
      else (case py_split c xs of [] \<Rightarrow> [[x]] | t # ts \<Rightarrow> (x # t) # ts))"

text \<open>\<^verbatim>\<open>sep.join(xs)\<close>.\<close>

fun py_join :: "string \<Rightarrow> string list \<Rightarrow> string" where
  "py_join sep [] = []"
| "py_join sep [x] = x"
| "py_join sep (x # y # ys) = x @ sep @ py_join sep (y # ys)"

text \<open>\<^verbatim>\<open>s.replace(old, new)\<close> for \<^verbatim>\<open>old\<close> of one character.\<close>

definition py_replace :: "char \<Rightarrow> string \<Rightarrow> string \<Rightarrow> string" where
  "py_replace old new s = concat (map (\<lambda>x. if x = old then new else [x]) s)"

text \<open>
  \<^verbatim>\<open>s.lower()\<close>: the upper case letters below 256 are A to Z and the code points 192
  to 222 other than the multiplication sign 215; each has its lower case letter 32 above.
\<close>

definition lower_char :: "char \<Rightarrow> char" where
  "lower_char x =
     (let n = (of_char x :: nat) in
      if 65 \<le> n \<and> n \<le> 90 \<or> 192 \<le> n \<and> n \<le> 222 \<and> n \<noteq> 215 then char_of (n + 32)
      else x)"

definition py_lower :: "string \<Rightarrow> string" where
  "py_lower s = map lower_char s"

text \<open>
  The characters below 256 that \<^verbatim>\<open>str.isspace\<close> accepts, which \<^verbatim>\<open>strip\<close> and
  \<^verbatim>\<open>split\<close> take for whitespace: tab, line feed, vertical tab, form feed, carriage
  return, the four separators 28 to 31, the space, the next-line character 133 and the
  no-break space 160.
\<close>

definition is_space :: "char \<Rightarrow> bool" where
  "is_space x =
     (let n = (of_char x :: nat) in
      9 \<le> n \<and> n \<le> 13 \<or> 28 \<le> n \<and> n \<le> 32 \<or> n = 133 \<or> n = 160)"

text \<open>\<^verbatim>\<open>s.strip()\<close>.\<close>

definition py_strip :: "string \<Rightarrow> string" where
  "py_strip s = rev (dropWhile is_space (rev (dropWhile is_space s)))"

text \<open>\<^verbatim>\<open>s.split()\<close>: the maximal runs of characters that are not whitespace.\<close>

fun split_ws :: "string \<Rightarrow> string \<Rightarrow> string list" where
  "split_ws cur [] = (if cur = [] then [] else [cur])"
| "split_ws cur (x # xs) =
     (if is_space x then (if cur = [] then split_ws [] xs else cur # split_ws [] xs)
      else split_ws (cur @ [x]) xs)"

definition py_split_ws :: "string \<Rightarrow> string list" where
  "py_split_ws s = split_ws [] s"

text \<open>\<^verbatim>\<open>sub in s\<close>.\<close>

fun py_in :: "string \<Rightarrow> string \<Rightarrow> bool" where
  "py_in sub [] = (sub = [])"
| "py_in sub (x # xs) = (prefix sub (x # xs) \<or> py_in sub xs)"

text \<open>
  \<^verbatim>\<open>urllib.parse.unquote(s)\<close>. A percent sign followed by two hexadecimal digits
  stands for a byte, any other character for itself. The bytes are read as UTF-8: a byte
  below 128 is its character, and the bytes 194 or 195 followed by a byte from 128 to 191
  are one character from 128 to 255. Every other sequence of bytes gives the replacement
  character or a character above 255: then the result is \<open>None\<close>.
\<close>

definition hex_digit :: "char \<Rightarrow> nat option" where
  "hex_digit x =
     (let n = (of_char x :: nat) in
      if 48 \<le> n \<and> n \<le> 57 then Some (n - 48)
      else if 65 \<le> n \<and> n \<le> 70 then Some (n - 55)
      else if 97 \<le> n \<and> n \<le> 102 then Some (n - 87)
      else None)"

datatype piece = Escaped nat | Literal char

fun unquote_pieces :: "string \<Rightarrow> piece list" where
  "unquote_pieces (p # a # b # rest) =
     (case (p = CHR ''%'', hex_digit a, hex_digit b) of
        (True, Some h, Some l) \<Rightarrow> Escaped (16 * h + l) # unquote_pieces rest
      | _ \<Rightarrow> Literal p # unquote_pieces (a # b # rest))"
| "unquote_pieces s = map Literal s"

fun decode_pieces :: "piece list \<Rightarrow> string option" where
  "decode_pieces [] = Some []"
| "decode_pieces (Literal c # ps) = map_option ((#) c) (decode_pieces ps)"
| "decode_pieces (Escaped b # ps) =
     (if b < 128 then map_option ((#) (char_of b)) (decode_pieces ps)
      else
        (case ps of
           Escaped b' # ps' \<Rightarrow>
             if (b = 194 \<or> b = 195) \<and> 128 \<le> b' \<and> b' \<le> 191
             then map_option ((#) (char_of ((b - 192) * 64 + (b' - 128)))) (decode_pieces ps')
             else None
         | _ \<Rightarrow> None))"

definition unquote :: "string \<Rightarrow> string option" where
  "unquote s = decode_pieces (unquote_pieces s)"

subsection \<open>The parse tree\<close>

text \<open>
  What \<^verbatim>\<open>BeautifulSoup(html_content, "html.parser")\<close> returns: a tree of elements
  (\<^verbatim>\<open>Tag\<close>: name, attributes, children) and text nodes (\<^verbatim>\<open>NavigableString\<close>, a
  subclass of \<^verbatim>\<open>str\<close>). A plain \<^verbatim>\<open>str\<close> held in a record is written with the
  constructor of the text node as well: the two agree on every operation the script uses.
  The value of a \<^verbatim>\<open>class\<close> attribute is kept as one string; the parser's list of
  classes is its split at whitespace.
\<close>

datatype node =
    NavigableString string
  | Tag string "(string \<times> string) list" "node list"

text \<open>\<^verbatim>\<open>x.name\<close>: \<^verbatim>\<open>None\<close> for a text node.\<close>

fun node_name :: "node \<Rightarrow> string option" where
  "node_name (NavigableString s) = None"
| "node_name (Tag n as cs) = Some n"

text \<open>\<^verbatim>\<open>x.contents\<close>: a text node has no such attribute.\<close>

fun contents :: "node \<Rightarrow> py_error + node list" where
  "contents (NavigableString s) = Inl (AttributeError ''contents'')"
| "contents (Tag n as cs) = Inr cs"

text \<open>\<^verbatim>\<open>x.attrs[k]\<close> for an element \<^verbatim>\<open>x\<close>.\<close>

fun attrs_get :: "node \<Rightarrow> string \<Rightarrow> py_error + string" where
  "attrs_get (NavigableString s) k = Inl (AttributeError ''attrs'')"
| "attrs_get (Tag n as cs) k = (case map_of as k of None \<Rightarrow> Inl (KeyError k) | Some v \<Rightarrow> Inr v)"

text \<open>The elements and text nodes below a node, in document order.\<close>

fun descendants :: "node \<Rightarrow> node list" where
  "descendants (NavigableString s) = []"
| "descendants (Tag n as cs) = concat (map (\<lambda>c. c # descendants c) cs)"

text \<open>\<^verbatim>\<open>x.find_all(name)\<close> and \<^verbatim>\<open>x.find(name)\<close>.\<close>

definition find_all :: "string \<Rightarrow> node \<Rightarrow> node list" where
  "find_all nm x = filter (\<lambda>y. node_name y = Some nm) (descendants x)"

definition find :: "string \<Rightarrow> node \<Rightarrow> node option" where
  "find nm x = (case find_all nm x of [] \<Rightarrow> None | y # ys \<Rightarrow> Some y)"

text \<open>
  \<^verbatim>\<open>class_=c\<close> for a class name \<^verbatim>\<open>c\<close> without whitespace: one of the element's
  classes is \<^verbatim>\<open>c\<close>.
\<close>

fun has_class :: "string \<Rightarrow> node \<Rightarrow> bool" where
  "has_class c (NavigableString s) = False"
| "has_class c (Tag n as cs) =
     (case map_of as ''class'' of None \<Rightarrow> False | Some v \<Rightarrow> c \<in> set (py_split_ws v))"

definition find_all_class :: "string \<Rightarrow> string \<Rightarrow> node \<Rightarrow> node list" where
  "find_all_class nm c x =
     filter (\<lambda>y. node_name y = Some nm \<and> has_class c y) (descendants x)"

definition find_class :: "string \<Rightarrow> string \<Rightarrow> node \<Rightarrow> node option" where
  "find_class nm c x = (case find_all_class nm c x of [] \<Rightarrow> None | y # ys \<Rightarrow> Some y)"

text \<open>
  \<^verbatim>\<open>x.string\<close> for an element: its only child if that is a text node, the
  \<^verbatim>\<open>string\<close> of its only child if that is an element, otherwise \<^verbatim>\<open>None\<close>.
\<close>

fun tag_string :: "node \<Rightarrow> string option" where
  "tag_string (NavigableString s) = Some s"
| "tag_string (Tag n as [c]) = tag_string c"
| "tag_string (Tag n as cs) = None"

subsection \<open>Printing the parse tree\<close>

text \<open>
  \<^verbatim>\<open>str(x)\<close> of an element is its markup, with the three entities of the default
  formatter in text and attribute values and with an element that may be empty, and is,
  closed in its own tag. An attribute value is printed as it was written, the list of
  classes too. Comments, declarations and the unescaped text of \<^verbatim>\<open>script\<close> and
  \<^verbatim>\<open>style\<close> are not modelled.
\<close>

definition dquote :: char where "dquote = CHR 0x22"
definition squote :: char where "squote = CHR 0x27"
definition newline :: char where "newline = CHR 0x0A"
definition backslash :: char where "backslash = CHR 0x5C"

definition substitute_xml :: "string \<Rightarrow> string" where
  "substitute_xml s =
     concat (map (\<lambda>x. if x = CHR ''&'' then ''&amp;''
                       else if x = CHR ''<'' then ''&lt;''
                       else if x = CHR ''>'' then ''&gt;'' else [x]) s)"

definition quoted_attribute_value :: "string \<Rightarrow> string" where
  "quoted_attribute_value v =
     (if dquote \<in> set v then
        (if squote \<in> set v then [dquote] @ py_replace dquote ''&quot;'' v @ [dquote]
         else [squote] @ v @ [squote])
      else [dquote] @ v @ [dquote])"

definition render_attrs :: "(string \<times> string) list \<Rightarrow> string" where
  "render_attrs as =
     concat (map (\<lambda>(k, v). '' '' @ k @ ''='' @ quoted_attribute_value (substitute_xml v)) as)"

definition void_elements :: "string list" where
  "void_elements =
     [''area'', ''base'', ''br'', ''col'', ''embed'', ''hr'', ''img'', ''input'', ''keygen'',
      ''link'', ''menuitem'', ''meta'', ''param'', ''source'', ''track'', ''wbr'',
      ''basefont'', ''bgsound'', ''command'', ''frame'', ''image'', ''isindex'', ''nextid'',
      ''spacer'']"

fun decode :: "node \<Rightarrow> string" where
  "decode (NavigableString s) = substitute_xml s"
| "decode (Tag n as cs) =
     (if cs = [] \<and> n \<in> set void_elements then ''<'' @ n @ render_attrs as @ ''/>''
      else ''<'' @ n @ render_attrs as @ ''>'' @ concat (map decode cs) @ ''</'' @ n @ ''>'')"

text \<open>\<^verbatim>\<open>str(x)\<close> and \<^verbatim>\<open>f"{x}"\<close>: a string is itself.\<close>

fun py_str :: "node \<Rightarrow> string" where
  "py_str (NavigableString s) = s"
| "py_str (Tag n as cs) = decode (Tag n as cs)"

text \<open>
  \<^verbatim>\<open>repr(s)\<close> of a string: in single quotes, or in double quotes when it has a single
  quote and no double quote; the backslash, the quote and the control characters are
  escaped, the control characters being those below 32, those from 127 to 160 and the
  soft hyphen 173.
\<close>

definition hex2 :: "nat \<Rightarrow> string" where
  "hex2 n = [''0123456789abcdef'' ! (n div 16 mod 16), ''0123456789abcdef'' ! (n mod 16)]"

definition repr_char :: "char \<Rightarrow> char \<Rightarrow> string" where
  "repr_char q x =
     (let n = (of_char x :: nat) in
      if x = backslash then [backslash, backslash]
      else if x = q then [backslash, q]
      else if n = 9 then [backslash, CHR ''t'']
      else if n = 10 then [backslash, CHR ''n'']
      else if n = 13 then [backslash, CHR ''r'']
      else if n < 32 \<or> 127 \<le> n \<and> n \<le> 160 \<or> n = 173 then [backslash, CHR ''x''] @ hex2 n
      else [x])"

definition py_repr :: "string \<Rightarrow> string" where
  "py_repr s =
     (let q = (if squote \<in> set s \<and> dquote \<notin> set s then dquote else squote)
      in [q] @ concat (map (repr_char q) s) @ [q])"

fun node_repr :: "node \<Rightarrow> string" where
  "node_repr (NavigableString s) = py_repr s"
| "node_repr (Tag n as cs) = decode (Tag n as cs)"

text \<open>\<^verbatim>\<open>str(xs)\<close> of a list of nodes.\<close>

definition str_list :: "node list \<Rightarrow> string" where
  "str_list xs = ''['' @ py_join '', '' (map node_repr xs) @ '']''"

subsection \<open>Records\<close>

text \<open>
  A student record is a \<^verbatim>\<open>SimpleNamespace\<close>: a dictionary from attribute names to
  values, filled under names that the document chooses. Reading an attribute that was never
  set raises \<^verbatim>\<open>AttributeError\<close>.
\<close>

type_synonym namespace = "string \<rightharpoonup> node"

definition getattr :: "namespace \<Rightarrow> string \<Rightarrow> py_error + node" where
  "getattr ns k = (case ns k of None \<Rightarrow> Inl (AttributeError k) | Some v \<Rightarrow> Inr v)"

text \<open>
  A method of \<^verbatim>\<open>str\<close> called on a value. On an element the name of the method is
  looked up as the name of a descendant; with no such descendant the result \<^verbatim>\<open>None\<close>
  is called, which is a \<^verbatim>\<open>TypeError\<close>. Documents with an element named after a
  method of \<^verbatim>\<open>str\<close> are outside the model.
\<close>

fun str_method :: "(string \<Rightarrow> 'a) \<Rightarrow> node \<Rightarrow> py_error + 'a" where
  "str_method f (NavigableString s) = Inr (f s)"
| "str_method f (Tag n as cs) = Inl TypeError"

subsection \<open>\<^verbatim>\<open>Roster.read_roster\<close>\<close>

text \<open>The children of an element; \<^verbatim>\<open>find_all\<close> returns elements only.\<close>

fun children :: "node \<Rightarrow> node list" where
  "children (NavigableString s) = []"
| "children (Tag n as cs) = cs"

text \<open>\<^verbatim>\<open>title = soup.title.string.strip()\<close>\<close>

definition document_title :: "node \<Rightarrow> py_error + string" where
  "document_title soup =
     (case find ''title'' soup of
        None \<Rightarrow> Inl (AttributeError ''string'')
      | Some t \<Rightarrow>
          (case tag_string t of
             None \<Rightarrow> Inl (AttributeError ''strip'')
           | Some s \<Rightarrow> Inr (py_strip s)))"

text \<open>\<^verbatim>\<open>[x for x in soup.find_all("a") if "@lists" in str(x.contents)]\<close>\<close>

definition course_links :: "node \<Rightarrow> node list" where
  "course_links soup =
     filter (\<lambda>x. py_in ''@lists'' (str_list (children x))) (find_all ''a'' soup)"

text \<open>The first such link, its first child, and the text before the first \<^verbatim>\<open>@\<close>.\<close>

definition course_name :: "node \<Rightarrow> py_error + string" where
  "course_name soup =
     and_then (index (course_links soup) 0) (\<lambda>link.
     and_then (contents link) (\<lambda>cs.
     and_then (index cs 0) (\<lambda>course_email.
     and_then (str_method (py_split CHR ''@'') course_email) (\<lambda>toks.
     index toks 0))))"

text \<open>\<^verbatim>\<open>xs[0::2]\<close> and \<^verbatim>\<open>xs[1::2]\<close>.\<close>

fun slice_even :: "'a list \<Rightarrow> 'a list" where
  "slice_even [] = []"
| "slice_even [x] = [x]"
| "slice_even (x # y # zs) = x # slice_even zs"

fun slice_odd :: "'a list \<Rightarrow> 'a list" where
  "slice_odd [] = []"
| "slice_odd (x # xs) = slice_even xs"

text \<open>
  The name under which a label is stored: the first child of the label's element, stripped,
  in lower case, without colons and spaces.
\<close>

definition label_of :: "node \<Rightarrow> py_error + string" where
  "label_of t =
     and_then (contents t) (\<lambda>cs.
     and_then (index cs 0) (\<lambda>c.
     and_then (str_method py_strip c) (\<lambda>s.
     Inr (py_replace CHR '' '' [] (py_replace CHR '':'' [] (py_lower s))))))"

text \<open>\<^verbatim>\<open>for i,t in enumerate(tags): ... o.__dict__[t] = data[i]\<close>\<close>

fun assign_tags :: "nat \<Rightarrow> node list \<Rightarrow> node list \<Rightarrow> namespace \<Rightarrow> py_error + namespace" where
  "assign_tags i [] data ns = Inr ns"
| "assign_tags i (t # tags) data ns =
     and_then (label_of t) (\<lambda>k.
     and_then (index data i) (\<lambda>d.
     assign_tags (Suc i) tags data (ns(k \<mapsto> d))))"

text \<open>\<^verbatim>\<open>[x for x in info if x.name!="br"]\<close>\<close>

definition info_of :: "node \<Rightarrow> node list" where
  "info_of td = filter (\<lambda>x. node_name x \<noteq> Some ''br'') (children td)"

text \<open>Lines 139 to 155: the photo reference and the label/value block of one row.\<close>

definition extract_row :: "node \<Rightarrow> py_error + namespace" where
  "extract_row r =
     (case find ''img'' r of
        None \<Rightarrow> Inl (AttributeError ''attrs'')
      | Some img \<Rightarrow>
          and_then (attrs_get img ''src'') (\<lambda>src.
          (case unquote src of
             None \<Rightarrow> Inl OutsideModel
           | Some photo \<Rightarrow>
               and_then (index (find_all ''td'' r) 1) (\<lambda>td.
               (let info = info_of td
                in assign_tags 0 (slice_even info) (slice_odd info)
                     (Map.empty(''photo'' \<mapsto> NavigableString photo)))))))"

text \<open>Lines 156 to 162, one definition for each line.\<close>

definition set_advisor :: "namespace \<Rightarrow> py_error + namespace" where
  "set_advisor ns =
     and_then (getattr ns ''advisor'') (\<lambda>v.
     and_then (str_method (py_split CHR '','') v) (\<lambda>toks.
     Inr (ns(''advisor'' \<mapsto> NavigableString (py_join '' '' (rev toks))))))"

definition set_email :: "namespace \<Rightarrow> py_error + namespace" where
  "set_email ns =
     and_then (getattr ns ''emailaddress'') (\<lambda>v.
     and_then (contents v) (\<lambda>cs.
     and_then (index cs 0) (\<lambda>c.
     Inr (ns(''email'' \<mapsto> c)))))"

definition set_lname :: "namespace \<Rightarrow> py_error + namespace" where
  "set_lname ns =
     and_then (getattr ns ''name'') (\<lambda>v.
     and_then (str_method (py_split CHR '','') v) (\<lambda>toks.
     and_then (index toks 0) (\<lambda>l.
     Inr (ns(''lname'' \<mapsto> NavigableString l)))))"

definition set_fname :: "namespace \<Rightarrow> py_error + namespace" where
  "set_fname ns =
     and_then (getattr ns ''name'') (\<lambda>v.
     and_then (str_method (py_split CHR '','') v) (\<lambda>toks.
     and_then (index toks 1) (\<lambda>f.
     Inr (ns(''fname'' \<mapsto> NavigableString f)))))"

definition set_name :: "namespace \<Rightarrow> py_error + namespace" where
  "set_name ns =
     and_then (getattr ns ''name'') (\<lambda>v.
     and_then (str_method (py_split CHR '','') v) (\<lambda>toks.
     Inr (ns(''name'' \<mapsto> NavigableString (py_join '' '' (rev toks))))))"

definition set_major :: "namespace \<Rightarrow> py_error + namespace" where
  "set_major ns =
     and_then (getattr ns ''primarymajor'') (\<lambda>v.
     and_then (str_method py_split_ws v) (\<lambda>toks.
     and_then (index toks 0) (\<lambda>m.
     Inr (ns(''major'' \<mapsto> NavigableString m)))))"

definition set_year :: "namespace \<Rightarrow> py_error + namespace" where
  "set_year ns =
     and_then (getattr ns ''classification'') (\<lambda>v.
     Inr (ns(''year'' \<mapsto> v)))"

definition normalize :: "namespace \<Rightarrow> py_error + namespace" where
  "normalize ns =
     and_then (set_advisor ns) (\<lambda>ns.
     and_then (set_email ns) (\<lambda>ns.
     and_then (set_lname ns) (\<lambda>ns.
     and_then (set_fname ns) (\<lambda>ns.
     and_then (set_name ns) (\<lambda>ns.
     and_then (set_major ns) set_year)))))"

definition process_row :: "node \<Rightarrow> py_error + namespace" where
  "process_row r = and_then (extract_row r) normalize"

text \<open>\<^verbatim>\<open>for r in rows: ... self.roster.append(o)\<close>\<close>

fun read_rows :: "node list \<Rightarrow> namespace list \<Rightarrow> py_error + namespace list" where
  "read_rows [] roster = Inr roster"
| "read_rows (r # rows) roster =
     and_then (process_row r) (\<lambda>ns. read_rows rows (roster @ [ns]))"

text \<open>The rows of the class list: \<^verbatim>\<open>None\<close> has no \<^verbatim>\<open>find_all\<close>.\<close>

definition class_list_rows :: "node \<Rightarrow> py_error + node list" where
  "class_list_rows soup =
     (case find_class ''table'' ''ClassListTable'' soup of
        None \<Rightarrow> Inl (AttributeError ''find_all'')
      | Some t \<Rightarrow> Inr (find_all_class ''tr'' ''pdfClassListEntry'' t))"

text \<open>
  \<^verbatim>\<open>read_roster\<close> from the parsed document on: the course name and the roster it
  stores in \<^verbatim>\<open>self\<close>.
\<close>

definition read_roster :: "node \<Rightarrow> py_error + (string \<times> namespace list)" where
  "read_roster soup =
     and_then (document_title soup) (\<lambda>title.
     if title \<noteq> ''Instructor Class List'' then Inl AssertionError
     else
       and_then (course_name soup) (\<lambda>cn.
       and_then (class_list_rows soup) (\<lambda>rows.
       and_then (read_rows rows []) (\<lambda>roster.
       Inr (cn, roster)))))"

subsection \<open>\<^verbatim>\<open>Roster.rename_photos\<close>\<close>

text \<open>
  The files that can be read from the working directory: their names, as the script
  writes them, and their contents. Names are compared as strings; links are not modelled.
\<close>

type_synonym filesystem = "string \<rightharpoonup> string"

text \<open>
  Whether a file of a given name can be written is for the operating system to say: the
  name may lead into a directory that does not exist, be too long, or be refused. This is
  a parameter, \<open>create_error\<close>: the exception that opening the name for writing raises,
  or \<open>None\<close> when the file is opened. A name that is an existing directory is outside
  the model.
\<close>

type_synonym creation = "string \<Rightarrow> py_error option"

text \<open>
  \<^verbatim>\<open>shutil.copy(src, dst)\<close>: a missing source, a copy of a file onto itself and a
  destination that cannot be written raise; otherwise the destination holds the contents
  of the source, which stays.
\<close>

definition copy :: "creation \<Rightarrow> string \<Rightarrow> string \<Rightarrow> filesystem \<Rightarrow> py_error + filesystem" where
  "copy create_error src dst fs =
     (case fs src of
        None \<Rightarrow> Inl (FileNotFoundError src)
      | Some bytes \<Rightarrow>
          if src = dst then Inl (SameFileError src)
          else
            (case create_error dst of
               Some e \<Rightarrow> Inl e
             | None \<Rightarrow> Inr (fs(dst \<mapsto> bytes))))"

text \<open>A value used as a file name: a string is one, an element is not.\<close>

fun fspath :: "node \<Rightarrow> py_error + string" where
  "fspath (NavigableString s) = Inr s"
| "fspath (Tag n as cs) = Inl TypeError"

text \<open>The body of the loop, lines 169 to 174.\<close>

definition rename_photo ::
  "creation \<Rightarrow> namespace \<Rightarrow> filesystem \<Rightarrow> py_error + (namespace \<times> filesystem)" where
  "rename_photo create_error r fs =
     and_then (getattr r ''photo'') (\<lambda>oldfnam.
     and_then (getattr r ''lname'') (\<lambda>l.
     and_then (str_method py_lower l) (\<lambda>ll.
     and_then (getattr r ''fname'') (\<lambda>f.
     and_then (str_method py_lower f) (\<lambda>fl.
     (let newfnam = py_replace CHR '' '' ''-'' (''photo-'' @ ll @ ''-'' @ fl @ ''.jpg'') in
     and_then (fspath oldfnam) (\<lambda>src.
     and_then (copy create_error src newfnam fs) (\<lambda>fs'.
     Inr (r(''photo_renamed'' \<mapsto> NavigableString newfnam), fs')))))))))"

fun rename_photos ::
  "creation \<Rightarrow> namespace list \<Rightarrow> filesystem \<Rightarrow> py_error + (namespace list \<times> filesystem)" where
  "rename_photos create_error [] fs = Inr ([], fs)"
| "rename_photos create_error (r # rs) fs =
     and_then (rename_photo create_error r fs) (\<lambda>(r', fs').
     and_then (rename_photos create_error rs fs') (\<lambda>(rs', fs'').
     Inr (r' # rs', fs'')))"

subsection \<open>\<^verbatim>\<open>Roster.make_flashcards\<close>\<close>

text \<open>What the script hands to the deck library: a model, a deck of notes, media files.\<close>

record anki_model =
  model_id :: int
  model_name :: string
  field_names :: "string list"
  templates :: "(string \<times> string \<times> string) list"
  sort_field_index :: nat

record my_note =
  note_model :: anki_model
  note_fields :: "string list"

record deck =
  deck_id :: int
  deck_name :: string
  deck_notes :: "my_note list"

record package =
  package_deck :: deck
  media_files :: "string list"

text \<open>
  \<^verbatim>\<open>MyNote.guid\<close>: the library's \<^verbatim>\<open>guid_for\<close>, a parameter here, of the first two
  fields.
\<close>

definition guid :: "(string \<Rightarrow> string \<Rightarrow> 'g) \<Rightarrow> my_note \<Rightarrow> py_error + 'g" where
  "guid guid_for n =
     and_then (index (note_fields n) 0) (\<lambda>a.
     and_then (index (note_fields n) 1) (\<lambda>b.
     Inr (guid_for a b)))"

text \<open>
  Lines 177 to 197. The built-in \<^verbatim>\<open>hash\<close> is a parameter: the interpreter draws the
  key of its string hash when the process starts, so \<^verbatim>\<open>hash\<close> is one function during
  a run and another one in the next run.
\<close>

definition make_model_id :: "(string \<Rightarrow> int) \<Rightarrow> string \<Rightarrow> int" where
  "make_model_id hash cn = hash cn AND 0x7fffffff"

definition make_model :: "(string \<Rightarrow> int) \<Rightarrow> string \<Rightarrow> anki_model" where
  "make_model hash cn =
     \<lparr> model_id = make_model_id hash cn,
       model_name = ''My Model'',
       field_names = [''Prompt'', ''Photo'', ''Answer''],
       templates = [(''Card 1'', ''{{Prompt}}<br>{{Photo}}'',
                     ''{{FrontSide}}<hr id='' @ [dquote] @ ''answer'' @ [dquote] @ ''>{{Answer}}'')],
       sort_field_index = 2 \<rparr>"

text \<open>Lines 201 to 205.\<close>

definition answer_text :: "namespace \<Rightarrow> py_error + string" where
  "answer_text ns =
     and_then (getattr ns ''name'') (\<lambda>name.
     and_then (getattr ns ''year'') (\<lambda>year.
     and_then (getattr ns ''major'') (\<lambda>major.
     and_then (getattr ns ''email'') (\<lambda>email.
     and_then (getattr ns ''advisor'') (\<lambda>advisor.
     Inr ((py_str name @ ''<br/>'' @ [newline]) @
          (py_str year @ '' / '' @ py_str major @ ''<br>'' @ [newline]) @
          (py_str email @ ''<br>'' @ [newline]) @
          (''advisor: '' @ py_str advisor @ ''<br>'' @ [newline])))))))"

text \<open>Lines 201 to 211: the note of one record.\<close>

definition make_note :: "anki_model \<Rightarrow> string \<Rightarrow> namespace \<Rightarrow> py_error + my_note" where
  "make_note m cn ns =
     and_then (answer_text ns) (\<lambda>answer.
     (let prompt = cn @ ''<br/>'' in
     and_then (getattr ns ''photo_renamed'') (\<lambda>p.
     Inr \<lparr> note_model = m,
           note_fields = [prompt, ''<img src='' @ [dquote] @ py_str p @ [dquote] @ ''>'', answer] \<rparr>)))"

text \<open>The loop of lines 200 to 213, on the notes of the deck and the media list.\<close>

fun add_notes ::
  "anki_model \<Rightarrow> string \<Rightarrow> namespace list \<Rightarrow> my_note list \<Rightarrow> string list
     \<Rightarrow> py_error + (my_note list \<times> string list)" where
  "add_notes m cn [] acc media = Inr (acc, media)"
| "add_notes m cn (r # roster) acc media =
     and_then (make_note m cn r) (\<lambda>n.
     and_then (getattr r ''photo_renamed'') (\<lambda>p.
     add_notes m cn roster (acc @ [n]) (media @ [py_str p])))"

definition make_flashcards ::
  "(string \<Rightarrow> int) \<Rightarrow> string \<Rightarrow> namespace list \<Rightarrow> py_error + package" where
  "make_flashcards hash cn roster =
     (let mid = make_model_id hash cn;
          m = make_model hash cn;
          did = mid
      in and_then (add_notes m cn roster [] []) (\<lambda>(ns, media).
         Inr \<lparr> package_deck = \<lparr> deck_id = did, deck_name = cn, deck_notes = ns \<rparr>,
               media_files = media \<rparr>))"

subsection \<open>\<^verbatim>\<open>Roster.main\<close>\<close>

text \<open>
  The three stages on a parsed document and a working directory: the package given to the
  library's writer, and the files after the copies.
\<close>

definition roster_main ::
  "(string \<Rightarrow> int) \<Rightarrow> creation \<Rightarrow> node \<Rightarrow> filesystem
     \<Rightarrow> py_error + (package \<times> filesystem)" where
  "roster_main hash create_error soup fs =
     and_then (read_roster soup) (\<lambda>(cn, roster).
     and_then (rename_photos create_error roster fs) (\<lambda>(roster', fs').
     and_then (make_flashcards hash cn roster') (\<lambda>pkg.
     Inr (pkg, fs'))))"

subsection \<open>The photo name of the specification\<close>

text \<open>
  The file name as the specification states it: the last and the first name in lower case,
  each with its spaces replaced by hyphens, between \<^verbatim>\<open>photo-\<close> and \<^verbatim>\<open>.jpg\<close>.
\<close>

definition photo_name :: "string \<Rightarrow> string \<Rightarrow> string" where
  "photo_name l f =
     ''photo-'' @ py_replace CHR '' '' ''-'' (py_lower l) @ ''-'' @
     py_replace CHR '' '' ''-'' (py_lower f) @ ''.jpg''"

subsection \<open>The photo name as C5 words it\<close>

text \<open>
  Only the interior spaces of a name become hyphens: the spaces before its first and after
  its last character that is not a space are kept.
\<close>

definition hyphenate_interior :: "string \<Rightarrow> string" where
  "hyphenate_interior s =
     (let leading = takeWhile (\<lambda>x. x = CHR '' '') s;
          rest = dropWhile (\<lambda>x. x = CHR '' '') s;
          trailing = takeWhile (\<lambda>x. x = CHR '' '') (rev rest);
          interior = rev (dropWhile (\<lambda>x. x = CHR '' '') (rev rest))
      in leading @ py_replace CHR '' '' ''-'' interior @ trailing)"

definition interior_photo_name :: "string \<Rightarrow> string \<Rightarrow> string" where
  "interior_photo_name l f =
     ''photo-'' @ hyphenate_interior (py_lower l) @ ''-'' @ hyphenate_interior (py_lower f) @
     ''.jpg''"

subsection \<open>Structurally valid input\<close>

text \<open>
  The conventions of the saved page, stated on the document. A label is an element whose
  first child is text; its name is that text stripped, in lower case, without colons and
  spaces.
\<close>

fun label_text :: "node \<Rightarrow> string option" where
  "label_text (Tag n as (NavigableString s # cs)) = Some s"
| "label_text x = None"

definition label_name :: "string \<Rightarrow> string" where
  "label_name s = py_replace CHR '' '' [] (py_replace CHR '':'' [] (py_lower (py_strip s)))"

text \<open>
  The label/value layout of a cell: its children other than line breaks are a label, its
  value, the next label, its value, and so on. The result is the values under the names of
  their labels, \<open>None\<close> when the children are not laid out so.
\<close>

fun layout :: "node list \<Rightarrow> (string \<times> node) list option" where
  "layout [] = Some []"
| "layout [x] = None"
| "layout (l # v # rest) =
     (case label_text l of
        None \<Rightarrow> None
      | Some s \<Rightarrow>
          (case layout rest of
             None \<Rightarrow> None
           | Some ps \<Rightarrow> Some ((label_name s, v) # ps)))"

text \<open>The layout of the second cell of a row.\<close>

definition row_layout :: "node \<Rightarrow> (string \<times> node) list option" where
  "row_layout r =
     (case find_all ''td'' r of
        c # cell # cells \<Rightarrow> layout (filter (\<lambda>x. node_name x \<noteq> Some ''br'') (children cell))
      | _ \<Rightarrow> None)"

text \<open>The decoded source of the first image of a row.\<close>

definition row_photo :: "node \<Rightarrow> string option" where
  "row_photo r =
     (case find ''img'' r of
        None \<Rightarrow> None
      | Some img \<Rightarrow> (case attrs_get img ''src'' of Inl e \<Rightarrow> None | Inr src \<Rightarrow> unquote src))"

fun text_of :: "node option \<Rightarrow> string option" where
  "text_of (Some (NavigableString s)) = Some s"
| "text_of v = None"

fun has_child :: "node option \<Rightarrow> bool" where
  "has_child (Some (Tag n as (c # cs))) = True"
| "has_child v = False"

text \<open>
  The fields of a row, a later value of a label replacing an earlier one, are as the page
  gives them: no label is named \<^verbatim>\<open>photo\<close>; the advisor and the primary major are text,
  the major not blank; the email address is an element with a child; there is a
  classification; and the name is text with a comma. The photo is a file of the working
  directory, and the file it is copied to has another name, one the operating system lets
  be written.
\<close>

definition valid_fields :: "creation \<Rightarrow> filesystem \<Rightarrow> string \<Rightarrow> (string \<rightharpoonup> node) \<Rightarrow> bool" where
  "valid_fields create_error fs photo field =
     (field ''photo'' = None \<and>
      text_of (field ''advisor'') \<noteq> None \<and>
      has_child (field ''emailaddress'') \<and>
      (case text_of (field ''primarymajor'') of
         Some pm \<Rightarrow> py_split_ws pm \<noteq> [] | None \<Rightarrow> False) \<and>
      field ''classification'' \<noteq> None \<and>
      (case text_of (field ''name'') of
         Some nm \<Rightarrow>
           1 < length (py_split CHR '','' nm) \<and>
           fs photo \<noteq> None \<and>
           photo \<noteq> photo_name (hd (py_split CHR '','' nm)) (py_split CHR '','' nm ! 1) \<and>
           create_error (photo_name (hd (py_split CHR '','' nm)) (py_split CHR '','' nm ! 1)) = None
       | None \<Rightarrow> False))"

definition valid_row :: "creation \<Rightarrow> filesystem \<Rightarrow> node \<Rightarrow> bool" where
  "valid_row create_error fs r =
     (case row_photo r of
        None \<Rightarrow> False
      | Some photo \<Rightarrow>
          (case row_layout r of
             None \<Rightarrow> False
           | Some ps \<Rightarrow> valid_fields create_error fs photo (map_of (rev ps))))"

text \<open>
  A document is structurally valid when the text of its first title element, stripped, is
  the expected title; the first of the links whose contents print with \<^verbatim>\<open>@lists\<close>
  begins with text; there is a table of class \<^verbatim>\<open>ClassListTable\<close>; and the rows of class
  \<^verbatim>\<open>pdfClassListEntry\<close> in the first such table are valid.
\<close>

fun begins_with_text :: "node list \<Rightarrow> bool" where
  "begins_with_text (Tag n as (NavigableString s # cs) # rest) = True"
| "begins_with_text links = False"

definition structurally_valid :: "creation \<Rightarrow> filesystem \<Rightarrow> node \<Rightarrow> bool" where
  "structurally_valid create_error fs soup =
     ((case find ''title'' soup of
         None \<Rightarrow> False
       | Some t \<Rightarrow>
           (case tag_string t of
              None \<Rightarrow> False
            | Some s \<Rightarrow> py_strip s = ''Instructor Class List'')) \<and>
      begins_with_text
        (filter (\<lambda>x. py_in ''@lists'' (str_list (children x))) (find_all ''a'' soup)) \<and>
      (case find_all_class ''table'' ''ClassListTable'' soup of
         [] \<Rightarrow> False
       | t # ts \<Rightarrow>
           list_all (valid_row create_error fs) (find_all_class ''tr'' ''pdfClassListEntry'' t)))"

subsection \<open>Records that the later stages accept\<close>




subsection \<open>Example inputs\<close>

text \<open>The result of a stage read at one attribute.\<close>

definition attr_of :: "py_error + namespace \<Rightarrow> string \<Rightarrow> py_error + node" where
  "attr_of res k = and_then res (\<lambda>ns. getattr ns k)"

text \<open>A record as extraction leaves it, with the name and the advisor of the examples.\<close>

definition student_alice :: namespace where
  "student_alice =
     [''photo'' \<mapsto> NavigableString ''Instructor Class List_files/a b.jpg'',
      ''name'' \<mapsto> NavigableString ''Smith, Alice'',
      ''emailaddress'' \<mapsto>
         Tag ''a'' [(''href'', ''mailto:alice@upenn.edu'')] [NavigableString ''alice@upenn.edu''],
      ''classification'' \<mapsto> NavigableString ''Junior'',
      ''primarymajor'' \<mapsto> NavigableString ''Physics BA/MA'',
      ''advisor'' \<mapsto> NavigableString ''Jones, Bob'']"

definition student_alice_normalized :: namespace where
  "student_alice_normalized =
     student_alice
       (''advisor'' \<mapsto> NavigableString '' Bob Jones'',
        ''email'' \<mapsto> NavigableString ''alice@upenn.edu'',
        ''lname'' \<mapsto> NavigableString ''Smith'',
        ''fname'' \<mapsto> NavigableString '' Alice'',
        ''name'' \<mapsto> NavigableString '' Alice Smith'',
        ''major'' \<mapsto> NavigableString ''Physics'',
        ''year'' \<mapsto> NavigableString ''Junior'')"

text \<open>The same student with two advisors listed.\<close>

definition student_two_advisors :: namespace where
  "student_two_advisors =
     [''photo'' \<mapsto> NavigableString ''Instructor Class List_files/a b.jpg'',
      ''name'' \<mapsto> NavigableString ''Smith, Alice'',
      ''emailaddress'' \<mapsto>
         Tag ''a'' [(''href'', ''mailto:alice@upenn.edu'')] [NavigableString ''alice@upenn.edu''],
      ''classification'' \<mapsto> NavigableString ''Junior'',
      ''primarymajor'' \<mapsto> NavigableString ''Physics BA/MA'',
      ''advisor'' \<mapsto> NavigableString ''Jones, Bob, Carol'']"

definition student_two_advisors_normalized :: namespace where
  "student_two_advisors_normalized =
     student_two_advisors
       (''advisor'' \<mapsto> NavigableString '' Carol  Bob Jones'',
        ''email'' \<mapsto> NavigableString ''alice@upenn.edu'',
        ''lname'' \<mapsto> NavigableString ''Smith'',
        ''fname'' \<mapsto> NavigableString '' Alice'',
        ''name'' \<mapsto> NavigableString '' Alice Smith'',
        ''major'' \<mapsto> NavigableString ''Physics'',
        ''year'' \<mapsto> NavigableString ''Junior'')"

text \<open>
  A row of the class list as the page has it: a cell with the photo, and a cell with the
  label/value block.
\<close>

definition field_label :: "string \<Rightarrow> node" where
  "field_label s = Tag ''b'' [] [NavigableString s]"

definition line_break :: node where
  "line_break = Tag ''br'' [] []"

definition photo_cell :: "string \<Rightarrow> node" where
  "photo_cell src = Tag ''td'' [] [Tag ''img'' [(''src'', src)] []]"

definition info_alice :: node where
  "info_alice =
     Tag ''td'' []
       [field_label ''Name: '', NavigableString ''Smith, Alice'', line_break,
        field_label ''Email Address: '',
        Tag ''a'' [(''href'', ''mailto:alice@upenn.edu'')] [NavigableString ''alice@upenn.edu''],
        line_break,
        field_label ''Classification: '', NavigableString ''Junior'', line_break,
        field_label ''Primary Major: '', NavigableString ''Physics BA/MA'', line_break,
        field_label ''Advisor: '', NavigableString ''Jones, Bob'', line_break]"

definition row_alice :: node where
  "row_alice =
     Tag ''tr'' [(''class'', ''pdfClassListEntry'')]
       [photo_cell ''Instructor%20Class%20List_files/a%20b.jpg'', info_alice]"

text \<open>The same row without the advisor's label and value.\<close>

definition info_no_advisor :: node where
  "info_no_advisor =
     Tag ''td'' []
       [field_label ''Name: '', NavigableString ''Smith, Alice'', line_break,
        field_label ''Email Address: '',
        Tag ''a'' [(''href'', ''mailto:alice@upenn.edu'')] [NavigableString ''alice@upenn.edu''],
        line_break,
        field_label ''Classification: '', NavigableString ''Junior'', line_break,
        field_label ''Primary Major: '', NavigableString ''Physics BA/MA'', line_break]"

definition row_no_advisor :: node where
  "row_no_advisor =
     Tag ''tr'' [(''class'', ''pdfClassListEntry'')]
       [photo_cell ''Instructor%20Class%20List_files/a%20b.jpg'', info_no_advisor]"

text \<open>A row of the same shape with a given name and a given primary major.\<close>

definition info_with :: "string \<Rightarrow> string \<Rightarrow> node" where
  "info_with name major =
     Tag ''td'' []
       [field_label ''Name: '', NavigableString name, line_break,
        field_label ''Email Address: '',
        Tag ''a'' [(''href'', ''mailto:alice@upenn.edu'')] [NavigableString ''alice@upenn.edu''],
        line_break,
        field_label ''Classification: '', NavigableString ''Junior'', line_break,
        field_label ''Primary Major: '', NavigableString major, line_break,
        field_label ''Advisor: '', NavigableString ''Jones, Bob'', line_break]"

definition row_with :: "string \<Rightarrow> string \<Rightarrow> node" where
  "row_with name major =
     Tag ''tr'' [(''class'', ''pdfClassListEntry'')]
       [photo_cell ''Instructor%20Class%20List_files/a%20b.jpg'', info_with name major]"

text \<open>The exception that a run ends with, if it ends with one.\<close>

definition error_of :: "py_error + 'a \<Rightarrow> py_error option" where
  "error_of res = (case res of Inl e \<Rightarrow> Some e | Inr v \<Rightarrow> None)"

text \<open>
  An operating system that lets every name be written but one that leads into a
  subdirectory, since the working directory of the examples has none for the new files.
\<close>

definition flat_directory :: creation where
  "flat_directory name =
     (if CHR ''/'' \<in> set name then Some (FileNotFoundError name) else None)"

text \<open>The working directory with the photo of the example row.\<close>

definition example_fs :: filesystem where
  "example_fs = [''Instructor Class List_files/a b.jpg'' \<mapsto> ''JFIF-alice'']"

definition student_alice_renamed :: namespace where
  "student_alice_renamed =
     student_alice_normalized(''photo_renamed'' \<mapsto> NavigableString ''photo-smith--alice.jpg'')"

text \<open>The answer text of the example record.\<close>

definition alice_answer :: string where
  "alice_answer =
     '' Alice Smith<br/>'' @ [newline] @ ''Junior / Physics<br>'' @ [newline] @
     ''alice@upenn.edu<br>'' @ [newline] @ ''advisor:  Bob Jones<br>'' @ [newline]"

text \<open>
  Each item on a line of its own: the items can be given distinct lines, each item
  occurring in its line.
\<close>

fun own_lines :: "string list \<Rightarrow> string list \<Rightarrow> bool" where
  "own_lines [] ls = True"
| "own_lines (item # items) ls =
     list_ex (\<lambda>i. py_in item (ls ! i) \<and> own_lines items (take i ls @ drop (Suc i) ls))
       [0..<length ls]"

text \<open>
  A saved page: the title, the links to mailing lists, and the table of the class list
  with the given rows.
\<close>

definition list_link :: "string \<Rightarrow> node" where
  "list_link addr = Tag ''a'' [(''href'', ''mailto:'' @ addr)] [NavigableString addr]"

definition page :: "node list \<Rightarrow> node list \<Rightarrow> node" where
  "page links rows =
     Tag ''[document]'' []
       [Tag ''html'' []
          [Tag ''head'' [] [Tag ''title'' [] [NavigableString ''Instructor Class List'']],
           Tag ''body'' [] (links @ [Tag ''table'' [(''class'', ''ClassListTable'')] rows])]]"

definition phys_link :: node where
  "phys_link = list_link ''PHYS-0150-401-202610@lists.upenn.edu''"

definition math_link :: node where
  "math_link = list_link ''MATH-1400-001-202610@lists.upenn.edu''"

text \<open>
  Two functions standing for the built-in \<^verbatim>\<open>hash\<close> of two runs of the interpreter,
  which keys its string hash anew for each process.
\<close>

definition hash_of_first_run :: "string \<Rightarrow> int" where
  "hash_of_first_run s = 1000 + int (length s)"

definition hash_of_second_run :: "string \<Rightarrow> int" where
  "hash_of_second_run s = 2000 + int (length s)"

text \<open>
  A second student whose name differs from the first one's in case only, with another
  photo, and a class of the two.
\<close>

definition info_namesake :: node where
  "info_namesake =
     Tag ''td'' []
       [field_label ''Name: '', NavigableString ''SMITH, ALICE'', line_break,
        field_label ''Email Address: '',
        Tag ''a'' [(''href'', ''mailto:asmith@upenn.edu'')] [NavigableString ''asmith@upenn.edu''],
        line_break,
        field_label ''Classification: '', NavigableString ''Senior'', line_break,
        field_label ''Primary Major: '', NavigableString ''Mathematics BA'', line_break,
        field_label ''Advisor: '', NavigableString ''Lee,Ann'', line_break]"

definition row_namesake :: node where
  "row_namesake =
     Tag ''tr'' [(''class'', ''pdfClassListEntry'')]
       [photo_cell ''Instructor%20Class%20List_files/c.jpg'', info_namesake]"

definition student_namesake :: namespace where
  "student_namesake =
     [''photo'' \<mapsto> NavigableString ''Instructor Class List_files/c.jpg'',
      ''name'' \<mapsto> NavigableString ''SMITH, ALICE'',
      ''emailaddress'' \<mapsto>
         Tag ''a'' [(''href'', ''mailto:asmith@upenn.edu'')] [NavigableString ''asmith@upenn.edu''],
      ''classification'' \<mapsto> NavigableString ''Senior'',
      ''primarymajor'' \<mapsto> NavigableString ''Mathematics BA'',
      ''advisor'' \<mapsto> NavigableString ''Lee,Ann'']"

definition student_namesake_normalized :: namespace where
  "student_namesake_normalized =
     student_namesake
       (''advisor'' \<mapsto> NavigableString ''Ann Lee'',
        ''email'' \<mapsto> NavigableString ''asmith@upenn.edu'',
        ''lname'' \<mapsto> NavigableString ''SMITH'',
        ''fname'' \<mapsto> NavigableString '' ALICE'',
        ''name'' \<mapsto> NavigableString '' ALICE SMITH'',
        ''major'' \<mapsto> NavigableString ''Mathematics'',
        ''year'' \<mapsto> NavigableString ''Senior'')"

definition student_namesake_renamed :: namespace where
  "student_namesake_renamed =
     student_namesake_normalized
       (''photo_renamed'' \<mapsto> NavigableString ''photo-smith--alice.jpg'')"

definition namesake_answer :: string where
  "namesake_answer =
     '' ALICE SMITH<br/>'' @ [newline] @ ''Senior / Mathematics<br>'' @ [newline] @
     ''asmith@upenn.edu<br>'' @ [newline] @ ''advisor: Ann Lee<br>'' @ [newline]"

definition class_page :: node where
  "class_page = page [phys_link] [row_alice, row_namesake]"

definition class_fs :: filesystem where
  "class_fs =
     [''Instructor Class List_files/a b.jpg'' \<mapsto> ''JFIF-alice'',
      ''Instructor Class List_files/c.jpg'' \<mapsto> ''JFIF-namesake'']"

definition class_fs_after_alice :: filesystem where
  "class_fs_after_alice = class_fs(''photo-smith--alice.jpg'' \<mapsto> ''JFIF-alice'')"

definition class_fs_after_namesake :: filesystem where
  "class_fs_after_namesake =
     class_fs_after_alice(''photo-smith--alice.jpg'' \<mapsto> ''JFIF-namesake'')"

definition photo_field :: string where
  "photo_field = ''<img src='' @ [dquote] @ ''photo-smith--alice.jpg'' @ [dquote] @ ''>''"

definition alice_note :: my_note where
  "alice_note =
     \<lparr> note_model = make_model hash_of_first_run ''PHYS-0150-401-202610'',
       note_fields = [''PHYS-0150-401-202610<br/>'', photo_field, alice_answer] \<rparr>"

definition namesake_note :: my_note where
  "namesake_note =
     \<lparr> note_model = make_model hash_of_first_run ''PHYS-0150-401-202610'',
       note_fields = [''PHYS-0150-401-202610<br/>'', photo_field, namesake_answer] \<rparr>"

definition class_package :: package where
  "class_package =
     \<lparr> package_deck =
         \<lparr> deck_id = make_model_id hash_of_first_run ''PHYS-0150-401-202610'',
           deck_name = ''PHYS-0150-401-202610'',
           deck_notes = [alice_note, namesake_note] \<rparr>,
       media_files = [''photo-smith--alice.jpg'', ''photo-smith--alice.jpg''] \<rparr>"

text \<open>
  The string that the library's \<^verbatim>\<open>guid_for\<close> hashes: the two values joined with two
  underscores.
\<close>

definition guid_source :: "string \<Rightarrow> string \<Rightarrow> string" where
  "guid_source a b = a @ ''__'' @ b"

section \<open>Properties\<close>

subsection \<open>Sequencing and the string operations\<close>

lemma and_then_Inl [simp]: "and_then (Inl e) f = Inl e"
  by (simp add: and_then_def)

lemma and_then_Inr [simp]: "and_then (Inr v) f = f v"
  by (simp add: and_then_def)

lemma and_then_eq_Inr: "and_then m f = Inr y \<longleftrightarrow> (\<exists>v. m = Inr v \<and> f v = Inr y)"
  by (cases m) simp_all

lemma py_split_not_Nil: "py_split c s \<noteq> []"
  by (induction s) (simp_all split: list.splits)

lemma py_split_no_sep: "t \<in> set (py_split c s) \<Longrightarrow> c \<notin> set t"
proof (induction s arbitrary: t)
  case Nil
  then show ?case by simp
next
  case (Cons x xs)
  obtain u us where us: "py_split c xs = u # us"
    using py_split_not_Nil [of c xs] by (cases "py_split c xs") auto
  show ?case
  proof (cases "x = c")
    case True
    with Cons show ?thesis by auto
  next
    case False
    with Cons.prems us have "t = x # u \<or> t \<in> set us" by simp
    then show ?thesis
    proof
      assume "t = x # u"
      moreover have "c \<notin> set u" using Cons.IH [of u] us by simp
      ultimately show ?thesis using False by auto
    next
      assume "t \<in> set us"
      then show ?thesis using Cons.IH [of t] us by simp
    qed
  qed
qed

lemma py_join_Cons: "ys \<noteq> [] \<Longrightarrow> py_join sep (x # ys) = x @ sep @ py_join sep ys"
  by (cases ys) simp_all

lemma py_join_split: "py_join [c] (py_split c s) = s"
proof (induction s)
  case Nil
  then show ?case by simp
next
  case (Cons x xs)
  obtain t ts where ts: "py_split c xs = t # ts"
    using py_split_not_Nil [of c xs] by (cases "py_split c xs") auto
  show ?case
  proof (cases "x = c")
    case True
    with Cons ts show ?thesis by (simp add: py_join_Cons)
  next
    case False
    with Cons ts show ?thesis by (cases ts) simp_all
  qed
qed

lemma py_split_none: "c \<notin> set s \<Longrightarrow> py_split c s = [s]"
  by (induction s) auto

lemma py_split_append: "c \<notin> set l \<Longrightarrow> py_split c (l @ c # r) = l # py_split c r"
  by (induction l) auto

lemma hd_py_split: "hd (py_split c s) = takeWhile (\<lambda>x. x \<noteq> c) s"
  by (induction s) (auto split: list.splits simp: py_split_not_Nil)

text \<open>
  Beyond ASCII: \<^verbatim>\<open>lower\<close> maps U+00DC to U+00FC, a no-break space is whitespace, and
  \<^verbatim>\<open>unquote\<close> reads the escaped bytes as UTF-8, so \<^verbatim>\<open>%C3%A9\<close> is the one character
  U+00E9; an escaped character above U+00FF has no value here.
\<close>

lemma latin1_examples:
  "lower_char (char_of (220 :: nat)) = char_of (252 :: nat)"
  "is_space (char_of (160 :: nat))"
  "unquote ''caf%C3%A9.jpg'' = Some (''caf'' @ [char_of (233 :: nat)] @ ''.jpg'')"
  "unquote ''%E2%82%AC.jpg'' = None"
  by code_simp+

subsection \<open>Normalization, line by line\<close>

lemma getattr_eq_Inr: "getattr ns k = Inr v \<longleftrightarrow> ns k = Some v"
  by (simp add: getattr_def split: option.splits)

lemma getattr_None: "ns k = None \<Longrightarrow> getattr ns k = Inl (AttributeError k)"
  by (simp add: getattr_def)

lemma str_method_eq_Inr: "str_method f v = Inr y \<longleftrightarrow> (\<exists>s. v = NavigableString s \<and> y = f s)"
  by (cases v) auto

lemma contents_eq_Inr: "contents v = Inr cs \<longleftrightarrow> (\<exists>n as. v = Tag n as cs)"
  by (cases v) auto

lemma index_eq_Inr: "index xs i = Inr y \<longleftrightarrow> i < length xs \<and> y = xs ! i"
  by (auto simp: index_def)

lemma set_advisor_eq:
  "set_advisor ns = Inr ns' \<longleftrightarrow>
     (\<exists>s. ns ''advisor'' = Some (NavigableString s) \<and>
          ns' = ns(''advisor'' \<mapsto> NavigableString (py_join '' '' (rev (py_split CHR '','' s)))))"
  by (auto simp: set_advisor_def and_then_eq_Inr getattr_eq_Inr str_method_eq_Inr)

lemma set_email_eq:
  "set_email ns = Inr ns' \<longleftrightarrow>
     (\<exists>n as c cs. ns ''emailaddress'' = Some (Tag n as (c # cs)) \<and> ns' = ns(''email'' \<mapsto> c))"
  by (auto simp: set_email_def and_then_eq_Inr getattr_eq_Inr contents_eq_Inr index_eq_Inr
      neq_Nil_conv)

lemma set_lname_eq:
  "set_lname ns = Inr ns' \<longleftrightarrow>
     (\<exists>s. ns ''name'' = Some (NavigableString s) \<and>
          ns' = ns(''lname'' \<mapsto> NavigableString (hd (py_split CHR '','' s))))"
  by (auto simp: set_lname_def and_then_eq_Inr getattr_eq_Inr str_method_eq_Inr index_eq_Inr
      py_split_not_Nil hd_conv_nth)

lemma set_fname_eq:
  "set_fname ns = Inr ns' \<longleftrightarrow>
     (\<exists>s. ns ''name'' = Some (NavigableString s) \<and> 1 < length (py_split CHR '','' s) \<and>
          ns' = ns(''fname'' \<mapsto> NavigableString (py_split CHR '','' s ! 1)))"
  by (auto simp: set_fname_def and_then_eq_Inr getattr_eq_Inr str_method_eq_Inr index_eq_Inr)

lemma set_name_eq:
  "set_name ns = Inr ns' \<longleftrightarrow>
     (\<exists>s. ns ''name'' = Some (NavigableString s) \<and>
          ns' = ns(''name'' \<mapsto> NavigableString (py_join '' '' (rev (py_split CHR '','' s)))))"
  by (auto simp: set_name_def and_then_eq_Inr getattr_eq_Inr str_method_eq_Inr)

lemma set_major_eq:
  "set_major ns = Inr ns' \<longleftrightarrow>
     (\<exists>s. ns ''primarymajor'' = Some (NavigableString s) \<and> py_split_ws s \<noteq> [] \<and>
          ns' = ns(''major'' \<mapsto> NavigableString (hd (py_split_ws s))))"
  by (auto simp: set_major_def and_then_eq_Inr getattr_eq_Inr str_method_eq_Inr index_eq_Inr
      hd_conv_nth)

lemma set_year_eq:
  "set_year ns = Inr ns' \<longleftrightarrow>
     (\<exists>v. ns ''classification'' = Some v \<and> ns' = ns(''year'' \<mapsto> v))"
  by (auto simp: set_year_def and_then_eq_Inr getattr_eq_Inr)

lemma normalize_eq:
  "normalize ns = Inr ns' \<longleftrightarrow>
     (\<exists>adv n as c cs nm pm cl.
        ns ''advisor'' = Some (NavigableString adv) \<and>
        ns ''emailaddress'' = Some (Tag n as (c # cs)) \<and>
        ns ''name'' = Some (NavigableString nm) \<and> 1 < length (py_split CHR '','' nm) \<and>
        ns ''primarymajor'' = Some (NavigableString pm) \<and> py_split_ws pm \<noteq> [] \<and>
        ns ''classification'' = Some cl \<and>
        ns' = ns(''advisor'' \<mapsto> NavigableString (py_join '' '' (rev (py_split CHR '','' adv))),
                 ''email'' \<mapsto> c,
                 ''lname'' \<mapsto> NavigableString (hd (py_split CHR '','' nm)),
                 ''fname'' \<mapsto> NavigableString (py_split CHR '','' nm ! 1),
                 ''name'' \<mapsto> NavigableString (py_join '' '' (rev (py_split CHR '','' nm))),
                 ''major'' \<mapsto> NavigableString (hd (py_split_ws pm)),
                 ''year'' \<mapsto> cl))"
  unfolding normalize_def and_then_eq_Inr set_advisor_eq set_email_eq set_lname_eq set_fname_eq
    set_name_eq set_major_eq set_year_eq
  by (auto simp: fun_upd_def)


lemmas normalize_steps =
  normalize_def set_advisor_def set_email_def set_lname_def set_fname_def set_name_def
  set_major_def set_year_def getattr_def index_def py_split_ws_def is_space_def

lemma normalize_student_alice: "normalize student_alice = Inr student_alice_normalized"
  unfolding student_alice_normalized_def
  by (simp add: student_alice_def normalize_steps)

lemma normalize_student_two_advisors:
  "normalize student_two_advisors = Inr student_two_advisors_normalized"
  unfolding student_two_advisors_normalized_def
  by (simp add: student_two_advisors_def normalize_steps)

subsection \<open>Names\<close>

text \<open>
  C3, as the code has it. When the raw name is a string with exactly one comma,
  normalization stores the part before the comma as \<^verbatim>\<open>lname\<close>, the part after it as
  \<^verbatim>\<open>fname\<close>, unchanged and so with the space that follows the comma, and
  \<^verbatim>\<open>fname\<close>, a space and \<^verbatim>\<open>lname\<close> as the full name.
\<close>

theorem normalize_name_one_comma:
  assumes "normalize ns = Inr ns'"
    and "ns ''name'' = Some (NavigableString (l @ '','' @ f))"
    and "CHR '','' \<notin> set l" and "CHR '','' \<notin> set f"
  shows "ns' ''lname'' = Some (NavigableString l) \<and>
         ns' ''fname'' = Some (NavigableString f) \<and>
         ns' ''name'' = Some (NavigableString (f @ '' '' @ l))"
proof -
  have split: "py_split CHR '','' (l @ CHR '','' # f) = [l, f]"
    using assms(3,4) by (simp add: py_split_append py_split_none)
  from assms(1,2) show ?thesis
    unfolding normalize_eq by (auto simp: split)
qed

text \<open>The theorem at \<^verbatim>\<open>"Smith, Alice"\<close>: the first name is \<^verbatim>\<open>" Alice"\<close>.\<close>

theorem normalize_name_one_comma_witness:
  "normalize student_alice = Inr student_alice_normalized \<and>
   student_alice ''name'' = Some (NavigableString (''Smith'' @ '','' @ '' Alice'')) \<and>
   CHR '','' \<notin> set ''Smith'' \<and> CHR '','' \<notin> set '' Alice'' \<and>
   student_alice_normalized ''lname'' = Some (NavigableString ''Smith'') \<and>
   student_alice_normalized ''fname'' = Some (NavigableString '' Alice'') \<and>
   student_alice_normalized ''name'' = Some (NavigableString ('' Alice'' @ '' '' @ ''Smith''))"
proof -
  have h1: "normalize student_alice = Inr student_alice_normalized"
    by (rule normalize_student_alice)
  have h2: "student_alice ''name'' = Some (NavigableString (''Smith'' @ '','' @ '' Alice''))"
    by (simp add: student_alice_def)
  have h3: "CHR '','' \<notin> set ''Smith''" and h4: "CHR '','' \<notin> set '' Alice''"
    by simp_all
  from normalize_name_one_comma [OF h1 h2 h3 h4] h1 h2 h3 h4 show ?thesis
    by blast
qed

text \<open>
  C3 as the specification words it fails at its own example: the first name and the full
  name of \<^verbatim>\<open>"Smith, Alice"\<close> begin with a space.
\<close>

theorem name_with_space_after_comma_counterexample:
  "attr_of (normalize student_alice) ''fname'' = Inr (NavigableString '' Alice'') \<and>
   attr_of (normalize student_alice) ''fname'' \<noteq> Inr (NavigableString ''Alice'') \<and>
   attr_of (normalize student_alice) ''name'' = Inr (NavigableString '' Alice Smith'') \<and>
   attr_of (normalize student_alice) ''name'' \<noteq> Inr (NavigableString ''Alice Smith'')"
  by (simp add: attr_of_def normalize_student_alice student_alice_normalized_def getattr_def)

subsection \<open>Advisors\<close>

text \<open>
  C4, as the code has it. When the raw advisor field is a string, normalization stores its
  comma-separated tokens in reversed order, joined with one space. The tokens are the
  pieces between the commas, unchanged: joined with commas they give the raw field back,
  and none of them has a comma.
\<close>

theorem normalize_advisor_reversed_tokens:
  assumes "normalize ns = Inr ns'"
    and "ns ''advisor'' = Some (NavigableString raw)"
  shows "ns' ''advisor'' = Some (NavigableString (py_join '' '' (rev (py_split CHR '','' raw)))) \<and>
         py_join '','' (py_split CHR '','' raw) = raw \<and>
         (\<forall>t\<in>set (py_split CHR '','' raw). CHR '','' \<notin> set t)"
proof -
  from assms have "ns' ''advisor'' =
      Some (NavigableString (py_join '' '' (rev (py_split CHR '','' raw))))"
    unfolding normalize_eq by auto
  moreover have "py_join '','' (py_split CHR '','' raw) = raw"
    by (rule py_join_split)
  moreover have "\<forall>t\<in>set (py_split CHR '','' raw). CHR '','' \<notin> set t"
    by (blast dest: py_split_no_sep)
  ultimately show ?thesis by blast
qed

text \<open>
  The theorem at \<^verbatim>\<open>"Jones, Bob, Carol"\<close>: the tokens keep their leading spaces, so the
  result has a leading space and two spaces after \<^verbatim>\<open>Carol\<close>.
\<close>

theorem normalize_advisor_reversed_tokens_witness:
  "normalize student_two_advisors = Inr student_two_advisors_normalized \<and>
   student_two_advisors ''advisor'' = Some (NavigableString ''Jones, Bob, Carol'') \<and>
   py_split CHR '','' ''Jones, Bob, Carol'' = [''Jones'', '' Bob'', '' Carol''] \<and>
   student_two_advisors_normalized ''advisor'' = Some (NavigableString '' Carol  Bob Jones'')"
proof -
  have h1: "normalize student_two_advisors = Inr student_two_advisors_normalized"
    by (rule normalize_student_two_advisors)
  have h2: "student_two_advisors ''advisor'' = Some (NavigableString ''Jones, Bob, Carol'')"
    by (simp add: student_two_advisors_def)
  have toks: "py_split CHR '','' ''Jones, Bob, Carol'' = [''Jones'', '' Bob'', '' Carol'']"
    by simp
  from normalize_advisor_reversed_tokens [OF h1 h2] h1 h2 toks show ?thesis
    by simp
qed

text \<open>
  C4 as the specification words it fails at both of its examples: the results are not
  \<^verbatim>\<open>"Bob Jones"\<close> and \<^verbatim>\<open>"Carol Bob Jones"\<close>.
\<close>

theorem advisor_with_space_after_comma_counterexample:
  "attr_of (normalize student_alice) ''advisor'' = Inr (NavigableString '' Bob Jones'') \<and>
   attr_of (normalize student_alice) ''advisor'' \<noteq> Inr (NavigableString ''Bob Jones'') \<and>
   attr_of (normalize student_two_advisors) ''advisor'' =
     Inr (NavigableString '' Carol  Bob Jones'') \<and>
   attr_of (normalize student_two_advisors) ''advisor'' \<noteq>
     Inr (NavigableString ''Carol Bob Jones'')"
  by (simp add: attr_of_def normalize_student_alice normalize_student_two_advisors
      student_alice_normalized_def student_two_advisors_normalized_def getattr_def)

subsection \<open>Rows without an advisor\<close>

lemma assign_tags_None:
  "assign_tags i tags data ns = Inr ns' \<Longrightarrow> ns k = None \<Longrightarrow>
   \<forall>t\<in>set tags. label_of t \<noteq> Inr k \<Longrightarrow> ns' k = None"
proof (induction tags arbitrary: i ns)
  case Nil
  then show ?case by simp
next
  case (Cons t tags)
  from Cons.prems(1) obtain k' d where k': "label_of t = Inr k'"
    and step: "assign_tags (Suc i) tags data (ns(k' \<mapsto> d)) = Inr ns'"
    by (auto simp: and_then_eq_Inr)
  from k' Cons.prems(3) have "k' \<noteq> k" by auto
  with Cons.prems(2) have "(ns(k' \<mapsto> d)) k = None" by simp
  with step Cons.prems(3) show ?case
    using Cons.IH by auto
qed

lemma extract_row_None:
  assumes "extract_row r = Inr ns" and "index (find_all ''td'' r) 1 = Inr td"
    and "\<forall>t\<in>set (slice_even (info_of td)). label_of t \<noteq> Inr k" and "k \<noteq> ''photo''"
  shows "ns k = None"
proof -
  from assms(1,2) obtain photo where a:
    "assign_tags 0 (slice_even (info_of td)) (slice_odd (info_of td))
       (Map.empty(''photo'' \<mapsto> NavigableString photo)) = Inr ns"
    by (auto simp: extract_row_def and_then_eq_Inr Let_def split: option.splits)
  from assms(4) have b: "(Map.empty(''photo'' \<mapsto> NavigableString photo)) k = None"
    by simp
  from assign_tags_None [OF a b assms(3)] show ?thesis .
qed

lemma normalize_no_advisor:
  "ns ''advisor'' = None \<Longrightarrow> normalize ns = Inl (AttributeError ''advisor'')"
  by (simp add: normalize_def set_advisor_def getattr_def)

text \<open>
  C8. A row whose label/value block has no label that is stored under \<^verbatim>\<open>advisor\<close>
  never yields a record: when extraction returns one, normalization fails at its first
  line, the first use of the attribute, with an \<^verbatim>\<open>AttributeError\<close> that names
  \<^verbatim>\<open>advisor\<close>.
\<close>

theorem missing_advisor_label:
  assumes "index (find_all ''td'' r) 1 = Inr td"
    and "\<forall>t\<in>set (slice_even (info_of td)). label_of t \<noteq> Inr ''advisor''"
  shows "(\<forall>ns. extract_row r = Inr ns \<longrightarrow> process_row r = Inl (AttributeError ''advisor'')) \<and>
         (\<forall>ns'. process_row r \<noteq> Inr ns')"
proof -
  have a: "process_row r = Inl (AttributeError ''advisor'')" if "extract_row r = Inr ns" for ns
  proof -
    from that assms have "ns ''advisor'' = None"
      by (rule extract_row_None) simp
    with that show ?thesis
      by (simp add: process_row_def normalize_no_advisor)
  qed
  have "process_row r \<noteq> Inr ns'" for ns'
  proof (cases "extract_row r")
    case (Inl e)
    then show ?thesis by (simp add: process_row_def)
  next
    case (Inr ns)
    then show ?thesis using a by simp
  qed
  with a show ?thesis by blast
qed

subsection \<open>The example rows\<close>

lemmas example_rows =
  row_alice_def info_alice_def row_no_advisor_def info_no_advisor_def photo_cell_def
  field_label_def line_break_def

lemma example_strings:
  "py_lower ''Name:'' = ''name:''"
  "py_lower ''Email Address:'' = ''email address:''"
  "py_lower ''Classification:'' = ''classification:''"
  "py_lower ''Primary Major:'' = ''primary major:''"
  "py_lower ''Advisor:'' = ''advisor:''"
  "unquote ''Instructor%20Class%20List_files/a%20b.jpg'' =
     Some ''Instructor Class List_files/a b.jpg''"
  by code_simp+

lemmas extract_steps =
  extract_row_def find_def find_all_def info_of_def label_of_def index_def py_strip_def
  py_replace_def is_space_def

lemma extract_row_alice: "extract_row row_alice = Inr student_alice"
  unfolding student_alice_def
  by (simp add: example_rows extract_steps example_strings)

lemma extract_row_no_advisor_ok: "\<exists>ns. extract_row row_no_advisor = Inr ns"
  by (simp add: example_rows extract_steps example_strings)

text \<open>The theorem at the example row without an advisor.\<close>

theorem missing_advisor_label_witness:
  "index (find_all ''td'' row_no_advisor) 1 = Inr info_no_advisor \<and>
   list_all (\<lambda>t. label_of t \<noteq> Inr ''advisor'') (slice_even (info_of info_no_advisor)) \<and>
   process_row row_no_advisor = Inl (AttributeError ''advisor'')"
proof -
  have h1: "index (find_all ''td'' row_no_advisor) 1 = Inr info_no_advisor"
    by (simp add: example_rows extract_steps)
  have h2: "list_all (\<lambda>t. label_of t \<noteq> Inr ''advisor'') (slice_even (info_of info_no_advisor))"
    by (simp add: example_rows extract_steps example_strings)
  then have h2': "\<forall>t\<in>set (slice_even (info_of info_no_advisor)). label_of t \<noteq> Inr ''advisor''"
    by (simp add: list_all_iff)
  from missing_advisor_label [OF h1 h2'] extract_row_no_advisor_ok h1 h2 show ?thesis
    by blast
qed

subsection \<open>Photos\<close>

lemma py_replace_append: "py_replace c n (a @ b) = py_replace c n a @ py_replace c n b"
  by (simp add: py_replace_def)

lemma fspath_eq_Inr: "fspath v = Inr s \<longleftrightarrow> v = NavigableString s"
  by (cases v) auto

lemma copy_eq_Inr:
  "copy ce src dst fs = Inr fs' \<longleftrightarrow>
     (\<exists>bytes. fs src = Some bytes \<and> src \<noteq> dst \<and> ce dst = None \<and> fs' = fs(dst \<mapsto> bytes))"
  by (auto simp: copy_def split: option.splits)

lemma rename_photo_eq:
  "rename_photo ce r fs = Inr (r', fs') \<longleftrightarrow>
     (\<exists>src l f bytes.
        r ''photo'' = Some (NavigableString src) \<and>
        r ''lname'' = Some (NavigableString l) \<and>
        r ''fname'' = Some (NavigableString f) \<and>
        fs src = Some bytes \<and> src \<noteq> photo_name l f \<and> ce (photo_name l f) = None \<and>
        r' = r(''photo_renamed'' \<mapsto> NavigableString (photo_name l f)) \<and>
        fs' = fs(photo_name l f \<mapsto> bytes))"
  unfolding rename_photo_def and_then_eq_Inr getattr_eq_Inr str_method_eq_Inr Let_def
    fspath_eq_Inr copy_eq_Inr photo_name_def
  by (auto simp: py_replace_append py_replace_def)

text \<open>
  C5, as the code has it. When the body of the loop of \<^verbatim>\<open>rename_photos\<close> returns for
  a record, the record's \<^verbatim>\<open>photo_renamed\<close> is exactly
  \<^verbatim>\<open>photo-<lastname>-<firstname>.jpg\<close>, the names in lower case with every space
  replaced by a hyphen, a space before the first or after the last letter of a name as
  well as one inside it; the file of that name holds the contents of the original photo,
  the original is still there with its contents, and no other file has changed: a copy,
  not a move. The attribute is set after the copy, so a failed copy sets nothing.
\<close>

theorem rename_photo_copies:
  assumes "rename_photo ce r fs = Inr (r', fs')"
  shows "\<exists>src l f bytes.
           r ''photo'' = Some (NavigableString src) \<and>
           r ''lname'' = Some (NavigableString l) \<and>
           r ''fname'' = Some (NavigableString f) \<and>
           fs src = Some bytes \<and>
           r' ''photo_renamed'' = Some (NavigableString (photo_name l f)) \<and>
           fs' (photo_name l f) = Some bytes \<and>
           fs' src = Some bytes \<and>
           (\<forall>p. p \<noteq> photo_name l f \<longrightarrow> fs' p = fs p)"
  using assms unfolding rename_photo_eq by auto

subsection \<open>The answer text\<close>

lemma answer_text_Inr:
  assumes "ns ''name'' = Some name" and "ns ''year'' = Some year" and "ns ''major'' = Some major"
    and "ns ''email'' = Some email" and "ns ''advisor'' = Some advisor"
  shows "answer_text ns =
     Inr (py_str name @ ''<br/>'' @ [newline] @
          py_str year @ '' / '' @ py_str major @ ''<br>'' @ [newline] @
          py_str email @ ''<br>'' @ [newline] @
          ''advisor: '' @ py_str advisor @ ''<br>'' @ [newline])"
  using assms by (simp add: answer_text_def getattr_def)

lemma py_split_line:
  "c \<notin> set a \<Longrightarrow> c \<notin> set b \<Longrightarrow> py_split c (a @ b @ c # rest) = (a @ b) # py_split c rest"
  using py_split_append [of c "a @ b" rest] by simp

text \<open>
  C6, as the code has it. The answer text of a record whose five values have no line break
  has four lines, each closed by a line break: the full name; the year and the major
  together, separated by \<^verbatim>\<open>" / "\<close>; the email address; and \<^verbatim>\<open>"advisor: "\<close> with
  the advisor's name.
\<close>

theorem answer_text_four_lines:
  assumes "ns ''name'' = Some name" and "ns ''year'' = Some year" and "ns ''major'' = Some major"
    and "ns ''email'' = Some email" and "ns ''advisor'' = Some advisor"
    and "newline \<notin> set (py_str name)" and "newline \<notin> set (py_str year)"
    and "newline \<notin> set (py_str major)" and "newline \<notin> set (py_str email)"
    and "newline \<notin> set (py_str advisor)"
  shows "\<exists>a. answer_text ns = Inr a \<and>
           py_split newline a =
             [py_str name @ ''<br/>'',
              py_str year @ '' / '' @ py_str major @ ''<br>'',
              py_str email @ ''<br>'',
              ''advisor: '' @ py_str advisor @ ''<br>'',
              []]"
proof -
  have nl: "newline \<notin> set ''<br/>''" "newline \<notin> set ''<br>''" "newline \<notin> set '' / ''"
    "newline \<notin> set ''advisor: ''"
    by (simp_all add: newline_def)
  have l1: "py_split newline (py_str name @ ''<br/>'' @ newline # rest) =
      (py_str name @ ''<br/>'') # py_split newline rest" for rest
    using assms(6) nl(1) by (rule py_split_line)
  have l2: "py_split newline ((py_str year @ '' / '' @ py_str major) @ ''<br>'' @ newline # rest) =
      ((py_str year @ '' / '' @ py_str major) @ ''<br>'') # py_split newline rest" for rest
    using assms(7,8) nl(2,3) by (intro py_split_line) auto
  have l3: "py_split newline (py_str email @ ''<br>'' @ newline # rest) =
      (py_str email @ ''<br>'') # py_split newline rest" for rest
    using assms(9) nl(2) by (rule py_split_line)
  have l4: "py_split newline ((''advisor: '' @ py_str advisor) @ ''<br>'' @ newline # rest) =
      ((''advisor: '' @ py_str advisor) @ ''<br>'') # py_split newline rest" for rest
    using assms(10) nl(2,4) by (intro py_split_line) auto
  have "py_split newline
      (py_str name @ ''<br/>'' @ newline #
       (py_str year @ '' / '' @ py_str major) @ ''<br>'' @ newline #
       py_str email @ ''<br>'' @ newline #
       (''advisor: '' @ py_str advisor) @ ''<br>'' @ newline # []) =
     [py_str name @ ''<br/>'',
      (py_str year @ '' / '' @ py_str major) @ ''<br>'',
      py_str email @ ''<br>'',
      (''advisor: '' @ py_str advisor) @ ''<br>'',
      []]"
    unfolding l1 l2 l3 l4 by simp
  then show ?thesis
    unfolding answer_text_Inr [OF assms(1-5)] by simp
qed

subsection \<open>The example record, renamed and rendered\<close>

lemma alice_photo_name: "photo_name ''Smith'' '' Alice'' = ''photo-smith--alice.jpg''"
  by code_simp

lemma flat_directory_photo: "flat_directory ''photo-smith--alice.jpg'' = None"
  by (simp add: flat_directory_def)

lemma student_alice_normalized_attrs:
  "student_alice_normalized ''photo'' = Some (NavigableString ''Instructor Class List_files/a b.jpg'')"
  "student_alice_normalized ''lname'' = Some (NavigableString ''Smith'')"
  "student_alice_normalized ''fname'' = Some (NavigableString '' Alice'')"
  "student_alice_normalized ''name'' = Some (NavigableString '' Alice Smith'')"
  "student_alice_normalized ''year'' = Some (NavigableString ''Junior'')"
  "student_alice_normalized ''major'' = Some (NavigableString ''Physics'')"
  "student_alice_normalized ''email'' = Some (NavigableString ''alice@upenn.edu'')"
  "student_alice_normalized ''advisor'' = Some (NavigableString '' Bob Jones'')"
  by (simp_all add: student_alice_normalized_def student_alice_def)

lemma rename_photo_alice:
  "rename_photo flat_directory student_alice_normalized example_fs =
     Inr (student_alice_renamed, example_fs(''photo-smith--alice.jpg'' \<mapsto> ''JFIF-alice''))"
  unfolding rename_photo_eq student_alice_renamed_def
  by (simp add: student_alice_normalized_attrs alice_photo_name example_fs_def
      flat_directory_photo)

text \<open>
  The photo theorem at the example record: the space before the first name becomes a
  second hyphen.
\<close>

theorem rename_photo_copies_witness:
  "rename_photo flat_directory student_alice_normalized example_fs =
     Inr (student_alice_renamed, example_fs(''photo-smith--alice.jpg'' \<mapsto> ''JFIF-alice'')) \<and>
   photo_name ''Smith'' '' Alice'' = ''photo-smith--alice.jpg'' \<and>
   student_alice_renamed ''photo_renamed'' = Some (NavigableString ''photo-smith--alice.jpg'') \<and>
   (example_fs(''photo-smith--alice.jpg'' \<mapsto> ''JFIF-alice'')) ''photo-smith--alice.jpg'' =
     example_fs ''Instructor Class List_files/a b.jpg'' \<and>
   (example_fs(''photo-smith--alice.jpg'' \<mapsto> ''JFIF-alice'')) ''Instructor Class List_files/a b.jpg'' =
     Some ''JFIF-alice''"
  using rename_photo_copies [OF rename_photo_alice]
  by (simp add: rename_photo_alice alice_photo_name student_alice_normalized_attrs)

lemma interior_alice: "interior_photo_name ''Smith'' '' Alice'' = ''photo-smith- alice.jpg''"
  by code_simp

text \<open>
  C5 as worded, with only the interior spaces of a name replaced, fails at the example
  record. Its first name is \<^verbatim>\<open>" Alice"\<close>, as normalization leaves it for the raw name
  \<^verbatim>\<open>"Smith, Alice"\<close>; the space that leads it is not an interior one, yet the file is
  named \<^verbatim>\<open>photo-smith--alice.jpg\<close>, which is neither the name with that space kept nor
  \<^verbatim>\<open>photo-smith-alice.jpg\<close>.
\<close>

theorem leading_space_becomes_hyphen_counterexample:
  "rename_photo flat_directory student_alice_normalized example_fs =
     Inr (student_alice_renamed, example_fs(''photo-smith--alice.jpg'' \<mapsto> ''JFIF-alice'')) \<and>
   student_alice_normalized ''lname'' = Some (NavigableString ''Smith'') \<and>
   student_alice_normalized ''fname'' = Some (NavigableString '' Alice'') \<and>
   student_alice_renamed ''photo_renamed'' = Some (NavigableString ''photo-smith--alice.jpg'') \<and>
   interior_photo_name ''Smith'' '' Alice'' = ''photo-smith- alice.jpg'' \<and>
   ''photo-smith--alice.jpg'' \<noteq> interior_photo_name ''Smith'' '' Alice'' \<and>
   ''photo-smith--alice.jpg'' \<noteq> ''photo-smith-alice.jpg''"
  by (simp add: rename_photo_alice student_alice_normalized_attrs student_alice_renamed_def
      interior_alice)

lemma answer_text_alice: "answer_text student_alice_normalized = Inr alice_answer"
  by (simp add: answer_text_Inr [OF student_alice_normalized_attrs(4,5,6,7,8)] alice_answer_def)

text \<open>The answer theorem at the example record.\<close>

theorem answer_text_four_lines_witness:
  "answer_text student_alice_normalized = Inr alice_answer \<and>
   py_split newline alice_answer =
     ['' Alice Smith<br/>'', ''Junior / Physics<br>'', ''alice@upenn.edu<br>'',
      ''advisor:  Bob Jones<br>'', []]"
proof -
  have nl: "newline \<notin> set (py_str (NavigableString '' Alice Smith''))"
    "newline \<notin> set (py_str (NavigableString ''Junior''))"
    "newline \<notin> set (py_str (NavigableString ''Physics''))"
    "newline \<notin> set (py_str (NavigableString ''alice@upenn.edu''))"
    "newline \<notin> set (py_str (NavigableString '' Bob Jones''))"
    by (simp_all add: newline_def)
  from answer_text_four_lines [OF student_alice_normalized_attrs(4,5,6,7,8) nl]
  show ?thesis
    by (simp add: answer_text_alice)
qed

lemma alice_not_own_lines:
  "\<not> own_lines ['' Alice Smith'', ''Junior'', ''Physics'', ''alice@upenn.edu'',
       ''advisor:  Bob Jones''] (py_split newline alice_answer)"
  by code_simp

lemma alice_own_lines_without_major:
  "own_lines ['' Alice Smith'', ''Junior'', ''alice@upenn.edu'', ''advisor:  Bob Jones'']
     (py_split newline alice_answer)"
  by code_simp

text \<open>
  C6 as the specification words it fails: the five items of the example record cannot be
  given five lines, since the year and the major occur on the second line only. Without
  the major, the other four items do have a line each.
\<close>

theorem year_and_major_share_a_line_counterexample:
  "answer_text student_alice_normalized = Inr alice_answer \<and>
   \<not> own_lines ['' Alice Smith'', ''Junior'', ''Physics'', ''alice@upenn.edu'',
       ''advisor:  Bob Jones''] (py_split newline alice_answer) \<and>
   own_lines ['' Alice Smith'', ''Junior'', ''alice@upenn.edu'', ''advisor:  Bob Jones'']
     (py_split newline alice_answer)"
  by (intro conjI answer_text_alice alice_not_own_lines alice_own_lines_without_major)

subsection \<open>The course name\<close>

lemma course_name_Nil: "course_links soup = [] \<Longrightarrow> course_name soup = Inl IndexError"
  by (simp add: course_name_def index_def)

lemma course_name_Cons:
  "course_links soup = Tag n as (NavigableString s # cs) # rest \<Longrightarrow>
   course_name soup = Inr (takeWhile (\<lambda>x. x \<noteq> CHR ''@'') s)"
  by (simp add: course_name_def index_def py_split_not_Nil hd_conv_nth [symmetric]
      hd_py_split)

text \<open>
  C2, as the code has it. With no link whose contents print with \<^verbatim>\<open>@lists\<close>, taking
  the first element of the empty list raises \<^verbatim>\<open>IndexError\<close>, and \<^verbatim>\<open>read_roster\<close>
  never returns. With one such link or more, nothing is raised for their number: the course
  name is the text before the first \<^verbatim>\<open>@\<close> in the leading text of the first of them.
\<close>

theorem course_name_first_link:
  "(course_links soup = [] \<longrightarrow>
      course_name soup = Inl IndexError \<and> (\<forall>res. read_roster soup \<noteq> Inr res)) \<and>
   (\<forall>n as s cs rest. course_links soup = Tag n as (NavigableString s # cs) # rest \<longrightarrow>
      course_name soup = Inr (takeWhile (\<lambda>x. x \<noteq> CHR ''@'') s))"
proof -
  have "read_roster soup \<noteq> Inr res" if "course_links soup = []" for res
    using course_name_Nil [OF that]
    by (auto simp: read_roster_def and_then_eq_Inr split: if_splits)
  then show ?thesis
    using course_name_Nil course_name_Cons by blast
qed

lemma course_links_examples:
  "course_links (page [] []) = []"
  "course_links (page [phys_link, math_link] []) = [phys_link, math_link]"
  by code_simp+

lemma page_two_links:
  "document_title (page [phys_link, math_link] []) = Inr ''Instructor Class List''"
  "course_name (page [phys_link, math_link] []) = Inr ''PHYS-0150-401-202610''"
  "class_list_rows (page [phys_link, math_link] []) = Inr []"
  by code_simp+

lemma read_roster_two_links:
  "read_roster (page [phys_link, math_link] []) = Inr (''PHYS-0150-401-202610'', [])"
  by (simp add: read_roster_def page_two_links)

text \<open>The theorem at a page without a list link and at a page with two.\<close>

theorem course_name_first_link_witness:
  "course_links (page [] []) = [] \<and>
   course_name (page [] []) = Inl IndexError \<and>
   course_links (page [phys_link, math_link] []) = [phys_link, math_link] \<and>
   course_name (page [phys_link, math_link] []) = Inr ''PHYS-0150-401-202610''"
proof -
  have none: "course_name (page [] []) = Inl IndexError"
    using course_name_first_link [of "page [] []"] course_links_examples(1) by blast
  have l: "course_links (page [phys_link, math_link] []) =
      Tag ''a'' [(''href'', ''mailto:'' @ ''PHYS-0150-401-202610@lists.upenn.edu'')]
        (NavigableString ''PHYS-0150-401-202610@lists.upenn.edu'' # []) # [math_link]"
    unfolding course_links_examples by (simp add: phys_link_def list_link_def)
  have "course_name (page [phys_link, math_link] []) =
      Inr (takeWhile (\<lambda>x. x \<noteq> CHR ''@'') ''PHYS-0150-401-202610@lists.upenn.edu'')"
    using course_name_first_link [of "page [phys_link, math_link] []"] l by blast
  then have some: "course_name (page [phys_link, math_link] []) = Inr ''PHYS-0150-401-202610''"
    by simp
  from none some course_links_examples show ?thesis by simp
qed

text \<open>
  C2 as the specification words it fails: a page with two list links is read without an
  error, under the name of the first.
\<close>

theorem two_list_links_counterexample:
  "length (course_links (page [phys_link, math_link] [])) = 2 \<and>
   read_roster (page [phys_link, math_link] []) = Inr (''PHYS-0150-401-202610'', [])"
  by (simp add: course_links_examples read_roster_two_links)

subsection \<open>The loops\<close>

lemma map_Inr_eq_Cons:
  "map f (x # xs) = map Inr ys \<longleftrightarrow> (\<exists>y ys'. ys = y # ys' \<and> f x = Inr y \<and> map f xs = map Inr ys')"
  by (cases ys) auto

lemma map_Inr_nth:
  "map f xs = map Inr ys \<Longrightarrow> i < length xs \<Longrightarrow> f (xs ! i) = Inr (ys ! i)"
  by (metis length_map nth_map)

lemma map_Inr_length: "map f xs = map Inr ys \<Longrightarrow> length ys = length xs"
  by (metis length_map)

lemma read_rows_eq:
  "read_rows rows acc = Inr roster \<longleftrightarrow>
     (\<exists>ns. roster = acc @ ns \<and> map process_row rows = map Inr ns)"
proof (induction rows arbitrary: acc)
  case Nil
  then show ?case by auto
next
  case (Cons r rows)
  show ?case
    by (auto simp: and_then_eq_Inr Cons.IH map_Inr_eq_Cons)
qed

lemma read_roster_eq:
  "read_roster soup = Inr (cn, roster) \<longleftrightarrow>
     document_title soup = Inr ''Instructor Class List'' \<and> course_name soup = Inr cn \<and>
     (\<exists>rows. class_list_rows soup = Inr rows \<and> map process_row rows = map Inr roster)"
  by (auto simp: read_roster_def and_then_eq_Inr read_rows_eq split: if_splits)

lemma make_note_eq:
  "make_note m cn ns = Inr n \<longleftrightarrow>
     (\<exists>a p. answer_text ns = Inr a \<and> ns ''photo_renamed'' = Some p \<and>
        n = \<lparr> note_model = m,
              note_fields = [cn @ ''<br/>'',
                ''<img src='' @ [dquote] @ py_str p @ [dquote] @ ''>'', a] \<rparr>)"
  by (auto simp: make_note_def and_then_eq_Inr getattr_eq_Inr Let_def)

lemma add_notes_eq:
  "add_notes m cn roster acc media = Inr (ns, med) \<longleftrightarrow>
     (\<exists>ns'. ns = acc @ ns' \<and> map (make_note m cn) roster = map Inr ns' \<and>
        med = media @ map (\<lambda>r. py_str (the (r ''photo_renamed''))) roster)"
proof (induction roster arbitrary: acc media)
  case Nil
  then show ?case by auto
next
  case (Cons r roster)
  show ?case
    by (auto simp: and_then_eq_Inr Cons.IH map_Inr_eq_Cons getattr_eq_Inr make_note_eq)
qed

lemma make_flashcards_eq:
  "make_flashcards hash cn roster = Inr pkg \<longleftrightarrow>
     (\<exists>ns. map (make_note (make_model hash cn) cn) roster = map Inr ns \<and>
        pkg = \<lparr> package_deck =
                  \<lparr> deck_id = make_model_id hash cn, deck_name = cn, deck_notes = ns \<rparr>,
                media_files = map (\<lambda>r. py_str (the (r ''photo_renamed''))) roster \<rparr>)"
  by (auto simp: make_flashcards_def and_then_eq_Inr add_notes_eq Let_def)

lemma rename_photos_Cons_eq:
  "rename_photos ce (r # rs) fs = Inr (out, fs') \<longleftrightarrow>
     (\<exists>r' fs1 rs'. rename_photo ce r fs = Inr (r', fs1) \<and> rename_photos ce rs fs1 = Inr (rs', fs') \<and>
        out = r' # rs')"
  by (auto simp: and_then_eq_Inr)

lemma rename_photos_append_eq:
  "rename_photos ce (xs @ ys) fs = Inr (out, fs') \<longleftrightarrow>
     (\<exists>xs' ys' fs1. rename_photos ce xs fs = Inr (xs', fs1) \<and> rename_photos ce ys fs1 = Inr (ys', fs') \<and>
        out = xs' @ ys')"
proof (induction xs arbitrary: fs out)
  case Nil
  then show ?case by auto
next
  case (Cons x xs)
  show ?case
    unfolding append_Cons rename_photos_Cons_eq Cons.IH by (auto; blast)
qed

lemma rename_photos_length:
  "rename_photos ce rs fs = Inr (rs', fs') \<Longrightarrow> length rs' = length rs"
proof (induction rs arbitrary: fs rs')
  case Nil
  then show ?case by simp
next
  case (Cons r rs)
  then show ?case unfolding rename_photos_Cons_eq by auto
qed

lemma rename_photo_dom: "rename_photo ce r fs = Inr (r', fs') \<Longrightarrow> dom fs \<subseteq> dom fs'"
  unfolding rename_photo_eq by auto

lemma rename_photos_dom: "rename_photos ce rs fs = Inr (rs', fs') \<Longrightarrow> dom fs \<subseteq> dom fs'"
proof (induction rs arbitrary: fs rs')
  case Nil
  then show ?case by simp
next
  case (Cons r rs)
  then show ?case
    unfolding rename_photos_Cons_eq by (blast dest: rename_photo_dom)
qed

lemma rename_photos_split:
  assumes "rename_photos ce rs fs = Inr (rs', fs')" and "j < length rs"
  shows "\<exists>fs1 fs2.
           rename_photos ce (take j rs) fs = Inr (take j rs', fs1) \<and>
           rename_photo ce (rs ! j) fs1 = Inr (rs' ! j, fs2) \<and>
           rename_photos ce (drop (Suc j) rs) fs2 = Inr (drop (Suc j) rs', fs')"
proof -
  from assms(2) have rs: "rs = take j rs @ (rs ! j) # drop (Suc j) rs"
    by (simp add: id_take_nth_drop)
  from assms(1) have "rename_photos ce (take j rs @ (rs ! j) # drop (Suc j) rs) fs = Inr (rs', fs')"
    using rs by simp
  then obtain xs' r' ys' fs1 fs2 where
    a: "rename_photos ce (take j rs) fs = Inr (xs', fs1)"
    and b: "rename_photo ce (rs ! j) fs1 = Inr (r', fs2)"
    and c: "rename_photos ce (drop (Suc j) rs) fs2 = Inr (ys', fs')"
    and out: "rs' = xs' @ r' # ys'"
    unfolding rename_photos_append_eq rename_photos_Cons_eq by blast
  from rename_photos_length [OF a] assms(2) have len: "length xs' = j" by simp
  with out have "take j rs' = xs'" "rs' ! j = r'" "drop (Suc j) rs' = ys'"
    by (simp_all add: nth_append)
  with a b c show ?thesis by blast
qed

subsection \<open>Identifiers\<close>

text \<open>
  C1. The deck's identifier and the model identifier of every note are one value, the
  built-in \<^verbatim>\<open>hash\<close> of the course name cut to 31 bits. That value is whatever the
  \<^verbatim>\<open>hash\<close> of the running process gives: it is the same on every run only if the
  interpreter's string hash is, which the script does not arrange.
\<close>

theorem ids_follow_process_hash:
  assumes "make_flashcards hash cn roster = Inr pkg"
  shows "deck_id (package_deck pkg) = hash cn AND 0x7fffffff \<and>
         (\<forall>n\<in>set (deck_notes (package_deck pkg)).
            model_id (note_model n) = deck_id (package_deck pkg))"
proof -
  from assms obtain ns where ns: "map (make_note (make_model hash cn) cn) roster = map Inr ns"
    and pkg: "pkg = \<lparr> package_deck =
                  \<lparr> deck_id = make_model_id hash cn, deck_name = cn, deck_notes = ns \<rparr>,
                media_files = map (\<lambda>r. py_str (the (r ''photo_renamed''))) roster \<rparr>"
    unfolding make_flashcards_eq by blast
  have "model_id (note_model n) = make_model_id hash cn" if "n \<in> set ns" for n
  proof -
    from that obtain i where i: "i < length ns" "ns ! i = n"
      by (auto simp: in_set_conv_nth)
    with ns have "make_note (make_model hash cn) cn (roster ! i) = Inr n"
      using map_Inr_nth [OF ns, of i] map_Inr_length [OF ns] by simp
    then show ?thesis
      by (auto simp: make_note_eq make_model_def)
  qed
  with pkg show ?thesis
    by (simp add: make_model_id_def)
qed

lemma make_flashcards_no_students:
  "make_flashcards hash cn [] =
     Inr \<lparr> package_deck =
             \<lparr> deck_id = make_model_id hash cn, deck_name = cn, deck_notes = [] \<rparr>,
           media_files = [] \<rparr>"
  by (simp add: make_flashcards_def Let_def)

text \<open>
  The theorem for the same course under the hash functions of two runs: the identifiers
  of the two decks differ.
\<close>

theorem ids_follow_process_hash_witness:
  "make_flashcards hash_of_first_run ''PHYS-0150-401-202610'' [] =
     Inr \<lparr> package_deck = \<lparr> deck_id = 1020, deck_name = ''PHYS-0150-401-202610'', deck_notes = [] \<rparr>,
           media_files = [] \<rparr> \<and>
   make_flashcards hash_of_second_run ''PHYS-0150-401-202610'' [] =
     Inr \<lparr> package_deck = \<lparr> deck_id = 2020, deck_name = ''PHYS-0150-401-202610'', deck_notes = [] \<rparr>,
           media_files = [] \<rparr>"
proof -
  have a: "hash_of_first_run ''PHYS-0150-401-202610'' AND 0x7fffffff = 1020"
    by (simp add: hash_of_first_run_def)
  have b: "hash_of_second_run ''PHYS-0150-401-202610'' AND 0x7fffffff = 2020"
    by (simp add: hash_of_second_run_def)
  from ids_follow_process_hash [OF make_flashcards_no_students [of hash_of_first_run "''PHYS-0150-401-202610''"]]
    ids_follow_process_hash [OF make_flashcards_no_students [of hash_of_second_run "''PHYS-0150-401-202610''"]]
  show ?thesis
    by (simp add: make_flashcards_no_students a b)
qed

subsection \<open>The example class, stage by stage\<close>

lemmas namesake_rows = row_namesake_def info_namesake_def photo_cell_def field_label_def
  line_break_def

lemma namesake_strings:
  "unquote ''Instructor%20Class%20List_files/c.jpg'' = Some ''Instructor Class List_files/c.jpg''"
  "photo_name ''SMITH'' '' ALICE'' = ''photo-smith--alice.jpg''"
  "py_split_ws ''Mathematics BA'' = [''Mathematics'', ''BA'']"
  by code_simp+

lemma extract_row_namesake: "extract_row row_namesake = Inr student_namesake"
  unfolding student_namesake_def
  by (simp add: namesake_rows extract_steps example_strings namesake_strings)

lemma normalize_student_namesake: "normalize student_namesake = Inr student_namesake_normalized"
  unfolding student_namesake_normalized_def
  by (simp add: student_namesake_def normalize_steps)

lemma process_rows:
  "process_row row_alice = Inr student_alice_normalized"
  "process_row row_namesake = Inr student_namesake_normalized"
  by (simp_all add: process_row_def extract_row_alice extract_row_namesake
      normalize_student_alice normalize_student_namesake)

lemma class_page_parts:
  "document_title class_page = Inr ''Instructor Class List''"
  "course_name class_page = Inr ''PHYS-0150-401-202610''"
  "class_list_rows class_page = Inr [row_alice, row_namesake]"
  by code_simp+

lemma read_roster_class_page:
  "read_roster class_page =
     Inr (''PHYS-0150-401-202610'', [student_alice_normalized, student_namesake_normalized])"
  unfolding read_roster_eq by (simp add: class_page_parts process_rows)

lemma student_namesake_normalized_attrs:
  "student_namesake_normalized ''photo'' = Some (NavigableString ''Instructor Class List_files/c.jpg'')"
  "student_namesake_normalized ''lname'' = Some (NavigableString ''SMITH'')"
  "student_namesake_normalized ''fname'' = Some (NavigableString '' ALICE'')"
  "student_namesake_normalized ''name'' = Some (NavigableString '' ALICE SMITH'')"
  "student_namesake_normalized ''year'' = Some (NavigableString ''Senior'')"
  "student_namesake_normalized ''major'' = Some (NavigableString ''Mathematics'')"
  "student_namesake_normalized ''email'' = Some (NavigableString ''asmith@upenn.edu'')"
  "student_namesake_normalized ''advisor'' = Some (NavigableString ''Ann Lee'')"
  by (simp_all add: student_namesake_normalized_def student_namesake_def)

lemma rename_photo_class:
  "rename_photo flat_directory student_alice_normalized class_fs = Inr (student_alice_renamed, class_fs_after_alice)"
  "rename_photo flat_directory student_namesake_normalized class_fs_after_alice =
     Inr (student_namesake_renamed, class_fs_after_namesake)"
  unfolding rename_photo_eq student_alice_renamed_def student_namesake_renamed_def
    class_fs_after_namesake_def
  by (simp_all add: student_alice_normalized_attrs student_namesake_normalized_attrs
      alice_photo_name namesake_strings class_fs_after_alice_def class_fs_def
      flat_directory_photo)

lemma rename_photos_class:
  "rename_photos flat_directory [student_alice_normalized, student_namesake_normalized] class_fs =
     Inr ([student_alice_renamed, student_namesake_renamed], class_fs_after_namesake)"
  by (simp add: rename_photo_class)

lemma renamed_attrs:
  "student_alice_renamed ''photo_renamed'' = Some (NavigableString ''photo-smith--alice.jpg'')"
  "student_namesake_renamed ''photo_renamed'' = Some (NavigableString ''photo-smith--alice.jpg'')"
  "answer_text student_alice_renamed = Inr alice_answer"
  "answer_text student_namesake_renamed = Inr namesake_answer"
  by (simp_all add: student_alice_renamed_def student_namesake_renamed_def answer_text_def
      getattr_def student_alice_normalized_attrs student_namesake_normalized_attrs
      alice_answer_def namesake_answer_def)

lemma make_flashcards_class:
  "make_flashcards hash_of_first_run ''PHYS-0150-401-202610''
     [student_alice_renamed, student_namesake_renamed] = Inr class_package"
  unfolding make_flashcards_eq class_package_def
  by (simp add: make_note_eq renamed_attrs alice_note_def namesake_note_def photo_field_def)

lemma roster_main_class:
  "roster_main hash_of_first_run flat_directory class_page class_fs = Inr (class_package, class_fs_after_namesake)"
  by (simp add: roster_main_def read_roster_class_page rename_photos_class make_flashcards_class
      del: rename_photos.simps)

subsection \<open>Students of one name\<close>

lemma photo_name_lower:
  "py_lower l1 = py_lower l2 \<Longrightarrow> py_lower f1 = py_lower f2 \<Longrightarrow> photo_name l1 f1 = photo_name l2 f2"
  by (simp add: photo_name_def)

lemma rename_photos_nth:
  assumes "rename_photos ce rs fs = Inr (rs', fs')" and "i < length rs"
    and "(rs ! i) ''lname'' = Some (NavigableString l)"
    and "(rs ! i) ''fname'' = Some (NavigableString f)"
  shows "rs' ! i = (rs ! i)(''photo_renamed'' \<mapsto> NavigableString (photo_name l f))"
    and "photo_name l f \<in> dom fs'"
proof -
  from rename_photos_split [OF assms(1,2)] obtain fs1 fs2 where
    b: "rename_photo ce (rs ! i) fs1 = Inr (rs' ! i, fs2)"
    and c: "rename_photos ce (drop (Suc i) rs) fs2 = Inr (drop (Suc i) rs', fs')"
    by blast
  from b assms(3,4) show "rs' ! i = (rs ! i)(''photo_renamed'' \<mapsto> NavigableString (photo_name l f))"
    unfolding rename_photo_eq by auto
  from b assms(3,4) have "photo_name l f \<in> dom fs2"
    unfolding rename_photo_eq by auto
  with rename_photos_dom [OF c] show "photo_name l f \<in> dom fs'" by blast
qed

lemma guid_make_note:
  "make_note m cn ns = Inr n \<Longrightarrow> ns ''photo_renamed'' = Some p \<Longrightarrow>
   guid guid_for n =
     Inr (guid_for (cn @ ''<br/>'') (''<img src='' @ [dquote] @ py_str p @ [dquote] @ ''>''))"
  by (auto simp: make_note_eq guid_def index_def)

text \<open>
  C9. Two records of one run whose last names agree in lower case and whose first names do
  get the same renamed photo file and the same guid, whatever function the library's
  \<^verbatim>\<open>guid_for\<close> is. When the loop of \<^verbatim>\<open>rename_photos\<close> reaches the second of them,
  the file written for the first exists, and the copy replaces its contents with the
  second's photo.
\<close>

theorem namesakes_share_photo_and_guid:
  assumes "rename_photos ce roster fs = Inr (roster', fs')"
    and "make_flashcards hash cn roster' = Inr pkg"
    and "i < j" and "j < length roster"
    and "(roster ! i) ''lname'' = Some (NavigableString l1)"
    and "(roster ! i) ''fname'' = Some (NavigableString f1)"
    and "(roster ! j) ''lname'' = Some (NavigableString l2)"
    and "(roster ! j) ''fname'' = Some (NavigableString f2)"
    and "py_lower l1 = py_lower l2" and "py_lower f1 = py_lower f2"
  shows "(roster' ! i) ''photo_renamed'' = Some (NavigableString (photo_name l1 f1)) \<and>
         (roster' ! j) ''photo_renamed'' = Some (NavigableString (photo_name l1 f1)) \<and>
         (\<exists>g. guid guid_for (deck_notes (package_deck pkg) ! i) = Inr g \<and>
              guid guid_for (deck_notes (package_deck pkg) ! j) = Inr g) \<and>
         (\<exists>fs1 fs2 src bytes.
            rename_photos ce (take j roster) fs = Inr (take j roster', fs1) \<and>
            rename_photo ce (roster ! j) fs1 = Inr (roster' ! j, fs2) \<and>
            photo_name l1 f1 \<in> dom fs1 \<and>
            (roster ! j) ''photo'' = Some (NavigableString src) \<and>
            fs1 src = Some bytes \<and>
            fs2 (photo_name l1 f1) = Some bytes)"
proof -
  let ?name = "photo_name l1 f1"
  have same: "photo_name l2 f2 = ?name"
    using photo_name_lower [OF assms(9,10)] by simp
  from assms(3,4) have i: "i < length roster" by simp
  have ri: "roster' ! i = (roster ! i)(''photo_renamed'' \<mapsto> NavigableString ?name)"
    using rename_photos_nth(1) [OF assms(1) i assms(5,6)] .
  have rj: "roster' ! j = (roster ! j)(''photo_renamed'' \<mapsto> NavigableString ?name)"
    using rename_photos_nth(1) [OF assms(1,4,7,8)] same by simp
  have len: "length roster' = length roster"
    using rename_photos_length [OF assms(1)] .
  from assms(2) obtain ns where
    ns: "map (make_note (make_model hash cn) cn) roster' = map Inr ns"
    and pkg: "deck_notes (package_deck pkg) = ns"
    unfolding make_flashcards_eq by auto
  have gi: "guid guid_for (ns ! i) =
      Inr (guid_for (cn @ ''<br/>'')
        (''<img src='' @ [dquote] @ py_str (NavigableString ?name) @ [dquote] @ ''>''))"
  proof (rule guid_make_note)
    show "make_note (make_model hash cn) cn (roster' ! i) = Inr (ns ! i)"
      using map_Inr_nth [OF ns, of i] i len by simp
    show "(roster' ! i) ''photo_renamed'' = Some (NavigableString ?name)"
      unfolding ri by simp
  qed
  have gj: "guid guid_for (ns ! j) =
      Inr (guid_for (cn @ ''<br/>'')
        (''<img src='' @ [dquote] @ py_str (NavigableString ?name) @ [dquote] @ ''>''))"
  proof (rule guid_make_note)
    show "make_note (make_model hash cn) cn (roster' ! j) = Inr (ns ! j)"
      using map_Inr_nth [OF ns, of j] assms(4) len by simp
    show "(roster' ! j) ''photo_renamed'' = Some (NavigableString ?name)"
      unfolding rj by simp
  qed
  from rename_photos_split [OF assms(1,4)] obtain fs1 fs2 where
    a: "rename_photos ce (take j roster) fs = Inr (take j roster', fs1)"
    and b: "rename_photo ce (roster ! j) fs1 = Inr (roster' ! j, fs2)"
    by blast
  have d: "?name \<in> dom fs1"
  proof (rule rename_photos_nth(2) [OF a])
    show "i < length (take j roster)" using assms(3,4) by simp
    show "(take j roster ! i) ''lname'' = Some (NavigableString l1)"
      using assms(3,5) by simp
    show "(take j roster ! i) ''fname'' = Some (NavigableString f1)"
      using assms(3,6) by simp
  qed
  from b obtain src l f bytes where
    src: "(roster ! j) ''photo'' = Some (NavigableString src)"
    and l: "(roster ! j) ''lname'' = Some (NavigableString l)"
    and f: "(roster ! j) ''fname'' = Some (NavigableString f)"
    and bytes: "fs1 src = Some bytes"
    and fs2: "fs2 = fs1(photo_name l f \<mapsto> bytes)"
    unfolding rename_photo_eq by blast
  from l f assms(7,8) same have "photo_name l f = ?name" by simp
  with fs2 have w: "fs2 ?name = Some bytes" by simp
  have pi: "(roster' ! i) ''photo_renamed'' = Some (NavigableString ?name)"
    unfolding ri by simp
  have pj: "(roster' ! j) ''photo_renamed'' = Some (NavigableString ?name)"
    unfolding rj by simp
  have g: "\<exists>g. guid guid_for (deck_notes (package_deck pkg) ! i) = Inr g \<and>
              guid guid_for (deck_notes (package_deck pkg) ! j) = Inr g"
    unfolding pkg using gi gj by blast
  have ow: "\<exists>fs1 fs2 src bytes.
            rename_photos ce (take j roster) fs = Inr (take j roster', fs1) \<and>
            rename_photo ce (roster ! j) fs1 = Inr (roster' ! j, fs2) \<and>
            photo_name l1 f1 \<in> dom fs1 \<and>
            (roster ! j) ''photo'' = Some (NavigableString src) \<and>
            fs1 src = Some bytes \<and>
            fs2 (photo_name l1 f1) = Some bytes"
    using a b d src bytes w by blast
  show ?thesis
    by (intro conjI pi pj g ow)
qed

lemma namesake_lower:
  "py_lower ''Smith'' = py_lower ''SMITH''" "py_lower '' Alice'' = py_lower '' ALICE''"
  by code_simp+

lemma guid_notes:
  "guid guid_source alice_note = Inr (guid_source ''PHYS-0150-401-202610<br/>'' photo_field)"
  "guid guid_source namesake_note = Inr (guid_source ''PHYS-0150-401-202610<br/>'' photo_field)"
  by (simp_all add: guid_def index_def alice_note_def namesake_note_def)

text \<open>
  The theorem at the example class: both students get \<^verbatim>\<open>photo-smith--alice.jpg\<close>,
  which holds the first photo after the first copy and the second photo at the end.
\<close>

theorem namesakes_share_photo_and_guid_witness:
  "rename_photos flat_directory [student_alice_normalized, student_namesake_normalized] class_fs =
     Inr ([student_alice_renamed, student_namesake_renamed], class_fs_after_namesake) \<and>
   make_flashcards hash_of_first_run ''PHYS-0150-401-202610''
     [student_alice_renamed, student_namesake_renamed] = Inr class_package \<and>
   py_lower ''Smith'' = py_lower ''SMITH'' \<and> py_lower '' Alice'' = py_lower '' ALICE'' \<and>
   student_alice_renamed ''photo_renamed'' = Some (NavigableString ''photo-smith--alice.jpg'') \<and>
   student_namesake_renamed ''photo_renamed'' = Some (NavigableString ''photo-smith--alice.jpg'') \<and>
   guid guid_source alice_note = guid guid_source namesake_note \<and>
   class_fs_after_alice ''photo-smith--alice.jpg'' = Some ''JFIF-alice'' \<and>
   class_fs_after_namesake ''photo-smith--alice.jpg'' = Some ''JFIF-namesake''"
proof -
  have h1: "rename_photos flat_directory [student_alice_normalized, student_namesake_normalized] class_fs =
     Inr ([student_alice_renamed, student_namesake_renamed], class_fs_after_namesake)"
    by (rule rename_photos_class)
  have h2: "make_flashcards hash_of_first_run ''PHYS-0150-401-202610''
     [student_alice_renamed, student_namesake_renamed] = Inr class_package"
    by (rule make_flashcards_class)
  have h3: "(0::nat) < 1" and h4: "1 < length [student_alice_normalized, student_namesake_normalized]"
    by simp_all
  have h5: "([student_alice_normalized, student_namesake_normalized] ! 0) ''lname'' =
      Some (NavigableString ''Smith'')"
    and h6: "([student_alice_normalized, student_namesake_normalized] ! 0) ''fname'' =
      Some (NavigableString '' Alice'')"
    and h7: "([student_alice_normalized, student_namesake_normalized] ! 1) ''lname'' =
      Some (NavigableString ''SMITH'')"
    and h8: "([student_alice_normalized, student_namesake_normalized] ! 1) ''fname'' =
      Some (NavigableString '' ALICE'')"
    by (simp_all add: student_alice_normalized_attrs student_namesake_normalized_attrs)
  have fs: "class_fs_after_alice ''photo-smith--alice.jpg'' = Some ''JFIF-alice''"
    "class_fs_after_namesake ''photo-smith--alice.jpg'' = Some ''JFIF-namesake''"
    by (simp_all add: class_fs_after_alice_def class_fs_after_namesake_def)
  from namesakes_share_photo_and_guid [OF h1 h2 h3 h4 h5 h6 h7 h8 namesake_lower,
      where guid_for = guid_source]
  have "(\<exists>g. guid guid_source (deck_notes (package_deck class_package) ! 0) = Inr g \<and>
              guid guid_source (deck_notes (package_deck class_package) ! 1) = Inr g)"
    by blast
  then have g: "guid guid_source alice_note = guid guid_source namesake_note"
    by (auto simp: class_package_def)
  show ?thesis
    by (intro conjI h1 h2 namesake_lower renamed_attrs(1,2) g fs)
qed

subsection \<open>Cards in the order of the rows\<close>

lemma roster_main_eq:
  "roster_main hash ce soup fs = Inr (pkg, fs') \<longleftrightarrow>
     (\<exists>cn roster roster'. read_roster soup = Inr (cn, roster) \<and>
        rename_photos ce roster fs = Inr (roster', fs') \<and>
        make_flashcards hash cn roster' = Inr pkg)"
  by (auto simp: roster_main_def and_then_eq_Inr)

text \<open>
  C10. When the program returns, the deck has one card and the media list one entry for
  each qualifying row of the table, in the order of the rows: the card at position
  \<^verbatim>\<open>i\<close> is the note of the record of row \<^verbatim>\<open>i\<close>, and the media entry at position
  \<^verbatim>\<open>i\<close> is that record's renamed photo.
\<close>

theorem cards_and_media_follow_rows:
  assumes "roster_main hash ce soup fs = Inr (pkg, fs')"
  shows "\<exists>cn rows.
           course_name soup = Inr cn \<and> class_list_rows soup = Inr rows \<and>
           length (deck_notes (package_deck pkg)) = length rows \<and>
           length (media_files pkg) = length rows \<and>
           (\<forall>i<length rows. \<exists>ns l f.
              process_row (rows ! i) = Inr ns \<and>
              ns ''lname'' = Some (NavigableString l) \<and>
              ns ''fname'' = Some (NavigableString f) \<and>
              media_files pkg ! i = photo_name l f \<and>
              make_note (make_model hash cn) cn
                (ns(''photo_renamed'' \<mapsto> NavigableString (photo_name l f))) =
                Inr (deck_notes (package_deck pkg) ! i))"
proof -
  from assms obtain cn roster roster' where
    rr: "read_roster soup = Inr (cn, roster)"
    and rp: "rename_photos ce roster fs = Inr (roster', fs')"
    and mf: "make_flashcards hash cn roster' = Inr pkg"
    unfolding roster_main_eq by blast
  from rr obtain rows where cn: "course_name soup = Inr cn"
    and rows: "class_list_rows soup = Inr rows"
    and pr: "map process_row rows = map Inr roster"
    unfolding read_roster_eq by blast
  from mf obtain ns where
    ns: "map (make_note (make_model hash cn) cn) roster' = map Inr ns"
    and dn: "deck_notes (package_deck pkg) = ns"
    and media: "media_files pkg = map (\<lambda>r. py_str (the (r ''photo_renamed''))) roster'"
    unfolding make_flashcards_eq by auto
  have l1: "length roster = length rows" using map_Inr_length [OF pr] .
  have l2: "length roster' = length roster" using rename_photos_length [OF rp] .
  have l3: "length ns = length roster'" using map_Inr_length [OF ns] .
  have each: "\<exists>r l f.
        process_row (rows ! i) = Inr r \<and>
        r ''lname'' = Some (NavigableString l) \<and>
        r ''fname'' = Some (NavigableString f) \<and>
        media_files pkg ! i = photo_name l f \<and>
        make_note (make_model hash cn) cn
          (r(''photo_renamed'' \<mapsto> NavigableString (photo_name l f))) =
          Inr (deck_notes (package_deck pkg) ! i)" if i: "i < length rows" for i
  proof -
    from i l1 have ir: "i < length roster" by simp
    have p: "process_row (rows ! i) = Inr (roster ! i)"
      using map_Inr_nth [OF pr i] .
    from rename_photos_split [OF rp ir] obtain fs1 fs2 where
      "rename_photo ce (roster ! i) fs1 = Inr (roster' ! i, fs2)" by blast
    then obtain l f where l: "(roster ! i) ''lname'' = Some (NavigableString l)"
      and f: "(roster ! i) ''fname'' = Some (NavigableString f)"
      and r': "roster' ! i = (roster ! i)(''photo_renamed'' \<mapsto> NavigableString (photo_name l f))"
      unfolding rename_photo_eq by blast
    from ir l2 have ir': "i < length roster'" by simp
    have m: "media_files pkg ! i = photo_name l f"
      unfolding media using ir' by (simp add: r')
    have n: "make_note (make_model hash cn) cn (roster' ! i) = Inr (ns ! i)"
      using map_Inr_nth [OF ns ir'] .
    from p l f m n show ?thesis
      unfolding dn r' by blast
  qed
  have "length (deck_notes (package_deck pkg)) = length rows"
    unfolding dn using l1 l2 l3 by simp
  moreover have "length (media_files pkg) = length rows"
    unfolding media using l1 l2 by simp
  ultimately show ?thesis
    using cn rows each by blast
qed

text \<open>The theorem at the example class of two rows.\<close>

theorem cards_and_media_follow_rows_witness:
  "roster_main hash_of_first_run flat_directory class_page class_fs =
     Inr (class_package, class_fs_after_namesake) \<and>
   class_list_rows class_page = Inr [row_alice, row_namesake] \<and>
   process_row row_alice = Inr student_alice_normalized \<and>
   process_row row_namesake = Inr student_namesake_normalized \<and>
   deck_notes (package_deck class_package) = [alice_note, namesake_note] \<and>
   media_files class_package = [''photo-smith--alice.jpg'', ''photo-smith--alice.jpg'']"
proof -
  have "deck_notes (package_deck class_package) = [alice_note, namesake_note]"
    and "media_files class_package = [''photo-smith--alice.jpg'', ''photo-smith--alice.jpg'']"
    by (simp_all add: class_package_def)
  with cards_and_media_follow_rows [OF roster_main_class] roster_main_class
    class_page_parts(3) process_rows
  show ?thesis by blast
qed

subsection \<open>Valid documents\<close>



















subsection \<open>Valid and invalid example documents\<close>




text \<open>
  Two pages that are not valid, and the exception each run ends with. A primary major
  that is a no-break space only is blank to \<^verbatim>\<open>split\<close>, so line 161 takes the first of
  an empty list. A last name with a slash gives a file name that leads into a directory
  the working directory does not have, so the copy fails.
\<close>

lemma blank_major_not_valid:
  "\<not> structurally_valid flat_directory class_fs
       (page [phys_link] [row_with ''Smith, Alice'' [char_of (160 :: nat)]])"
  "error_of (roster_main hash_of_first_run flat_directory
       (page [phys_link] [row_with ''Smith, Alice'' [char_of (160 :: nat)]]) class_fs) =
     Some IndexError"
  by code_simp+

lemma slash_name_not_valid:
  "\<not> structurally_valid flat_directory class_fs
       (page [phys_link] [row_with ''O/Brien, Pat'' ''Physics BA''])"
  "error_of (roster_main hash_of_first_run flat_directory
       (page [phys_link] [row_with ''O/Brien, Pat'' ''Physics BA'']) class_fs) =
     Some (FileNotFoundError ''photo-o/brien--pat.jpg'')"
  by code_simp+

end
